theory Spec2Isabelle
  imports Main "HOL-Library.Finite_Map" "HOL-Library.Char_ord" "HOL-Library.List_Lexorder"
begin

section \<open>Values and errors\<close>

text \<open>
  The metadata model of \<^verbatim>\<open>tuf/api/metadata.py\<close> works on the dict representation of a
  document: the values a JSON decoder produces. A dict is a finite map from strings to
  values; equality of finite maps ignores insertion order, as Python's \<^verbatim>\<open>==\<close> on dicts
  does. Floats are left out, and a boolean is not read as the integer 0 or 1.
\<close>

datatype json =
    JNull
  | JBool bool
  | JInt int
  | JStr string
  | JList "json list"
  | JDict "(string, json) fmap"

type_synonym dict = "(string, json) fmap"

text \<open>
  The messages of \<^verbatim>\<open>tuf.exceptions.Error\<close> raised by \<^verbatim>\<open>Metadata.verify\<close>: the
  key id, and the number of signatures found when there are several.
\<close>

datatype tuf_message =
    NoSignatureForKey json
  | SignaturesForKey nat json

text \<open>
  Every exception class that occurs: Python's own, those of \<^verbatim>\<open>tuf.exceptions\<close>, and
  those the collaborators raise (\<^verbatim>\<open>securesystemslib.exceptions\<close>,
  \<^verbatim>\<open>tuf.api.serialization\<close>).
\<close>

datatype error =
    KeyError string
  | ValueError
  | AttributeError
  | TypeError
  | Error tuf_message
  | UnsignedMetadataError
  | LengthOrHashMismatchError
  | FormatError
  | CryptoError
  | UnsupportedAlgorithmError
  | SerializationError

text \<open>Sequencing of calls that may raise: the first exception ends the computation.\<close>

definition bind_r :: "error + 'a \<Rightarrow> ('a \<Rightarrow> error + 'b) \<Rightarrow> error + 'b" where
  "bind_r r f = (case r of Inl e \<Rightarrow> Inl e | Inr x \<Rightarrow> f x)"

text \<open>Python truthiness of a value, as \<^verbatim>\<open>if x:\<close>, \<^verbatim>\<open>x or y\<close> and \<^verbatim>\<open>x and y\<close> read it.\<close>

fun truthy :: "json \<Rightarrow> bool" where
  "truthy JNull = False"
| "truthy (JBool b) = b"
| "truthy (JInt i) = (i \<noteq> 0)"
| "truthy (JStr s) = (s \<noteq> [])"
| "truthy (JList xs) = (xs \<noteq> [])"
| "truthy (JDict d) = (d \<noteq> fmempty)"

text \<open>Only strings, numbers, booleans and \<^verbatim>\<open>None\<close> can be members of a Python set.\<close>

fun hashable :: "json \<Rightarrow> bool" where
  "hashable (JList xs) = False"
| "hashable (JDict d) = False"
| "hashable v = True"

text \<open>
  \<^verbatim>\<open>for x in v\<close>: a list yields its elements, a string its characters, a dict its keys
  (the finite map does not record insertion order; the keys come sorted); anything
  else is not iterable.
\<close>

fun py_iter :: "json \<Rightarrow> error + json list" where
  "py_iter (JList xs) = Inr xs"
| "py_iter (JStr s) = Inr (map (\<lambda>c. JStr [c]) s)"
| "py_iter (JDict d) = Inr (map JStr (sorted_list_of_fset (fmdom d)))"
| "py_iter v = Inl TypeError"

text \<open>\<^verbatim>\<open>d.pop(k)\<close> and \<^verbatim>\<open>d.pop(k, None)\<close> on a dict: the value and the dict without the key.\<close>

definition pop :: "string \<Rightarrow> dict \<Rightarrow> error + (json \<times> dict)" where
  "pop k d = (case fmlookup d k of
                None \<Rightarrow> Inl (KeyError k)
              | Some v \<Rightarrow> Inr (v, fmdrop k d))"

definition pop_default :: "string \<Rightarrow> json \<Rightarrow> dict \<Rightarrow> json \<times> dict" where
  "pop_default k dflt d = (case fmlookup d k of
                             None \<Rightarrow> (dflt, d)
                           | Some v \<Rightarrow> (v, fmdrop k d))"

text \<open>
  A nested value that a \<^verbatim>\<open>from_dict\<close> receives must be a dict for \<^verbatim>\<open>.pop(name)\<close> to
  work: a list has a \<^verbatim>\<open>pop\<close> that rejects a string index, other values have no such
  attribute.
\<close>

fun as_popable :: "json \<Rightarrow> error + dict" where
  "as_popable (JDict d) = Inr d"
| "as_popable (JList xs) = Inl TypeError"
| "as_popable v = Inl AttributeError"

text \<open>\<^verbatim>\<open>.items()\<close> and \<^verbatim>\<open>.get()\<close> exist on dicts only.\<close>

fun as_dict :: "json \<Rightarrow> error + dict" where
  "as_dict (JDict d) = Inr d"
| "as_dict v = Inl AttributeError"

text \<open>
  A loop over the entries of a dict that builds one result per entry and raises at the
  first entry that fails. Python visits the entries in insertion order, which the finite
  map does not record: when several entries fail, the error of the least key is the one
  reported here.
\<close>

definition fm_traverse :: "('a \<Rightarrow> error + 'b) \<Rightarrow> (string, 'a) fmap \<Rightarrow> error + (string, 'b) fmap" where
  "fm_traverse f m =
     (case List.map_filter (\<lambda>(k, v). case f v of Inl e \<Rightarrow> Some e | Inr y \<Rightarrow> None)
             (sorted_list_of_fmap m) of
        e # es \<Rightarrow> Inl e
      | [] \<Rightarrow> Inr (fmmap (\<lambda>v. projr (f v)) m))"

text \<open>The same loop over a list.\<close>

fun list_traverse :: "('a \<Rightarrow> error + 'b) \<Rightarrow> 'a list \<Rightarrow> error + 'b list" where
  "list_traverse f [] = Inr []"
| "list_traverse f (x # xs) =
     (case f x of
        Inl e \<Rightarrow> Inl e
      | Inr y \<Rightarrow> (case list_traverse f xs of Inl e \<Rightarrow> Inl e | Inr ys \<Rightarrow> Inr (y # ys)))"

section \<open>Time\<close>

text \<open>
  A naive UTC \<^verbatim>\<open>datetime\<close> is a point on the time line, counted in microseconds;
  \<^verbatim>\<open>timedelta\<close> is a number of microseconds, and comparison and addition are those of
  the integers.
\<close>

type_synonym datetime = int
type_synonym timedelta = int

definition timedelta_days :: "int \<Rightarrow> timedelta" where
  "timedelta_days n = n * 86400000000"

section \<open>Keys and roles\<close>

text \<open>\<^verbatim>\<open>d.get(k)\<close>: the value, or \<^verbatim>\<open>None\<close>.\<close>

definition get :: "string \<Rightarrow> dict \<Rightarrow> json" where
  "get k d = (case fmlookup d k of None \<Rightarrow> JNull | Some v \<Rightarrow> v)"

text \<open>
  \<^verbatim>\<open>unrecognized_fields or {}\<close> replaces \<^verbatim>\<open>None\<close> and the empty dict by a new empty dict.
\<close>

definition or_empty :: "dict option \<Rightarrow> dict" where
  "or_empty u = (case u of None \<Rightarrow> fmempty | Some d \<Rightarrow> if d = fmempty then fmempty else d)"

record Key =
  keytype :: json
  scheme :: json
  keyval :: json
  key_unrecognized_fields :: dict

text \<open>\<^verbatim>\<open>Key.__init__\<close>: \<^verbatim>\<open>keyval.get("public")\<close> must be there and not be empty.\<close>

definition Key_init :: "json \<Rightarrow> json \<Rightarrow> json \<Rightarrow> dict option \<Rightarrow> error + Key" where
  "Key_init kt sc kv u =
     bind_r (as_dict kv) (\<lambda>kvd.
       if \<not> truthy (get ''public'' kvd) then Inl ValueError
       else Inr \<lparr>keytype = kt, scheme = sc, keyval = kv, key_unrecognized_fields = or_empty u\<rparr>)"

text \<open>
  Every \<^verbatim>\<open>from_dict\<close> pops the fields it knows from the dict it is given and passes
  what is left to the constructor as the unrecognized fields. The dict is the caller's
  object: the functions return the new object together with the dict as the call leaves it.
\<close>

definition Key_from_dict :: "dict \<Rightarrow> error + (Key \<times> dict)" where
  "Key_from_dict key_dict =
     bind_r (pop ''keytype'' key_dict) (\<lambda>(kt, d1).
     bind_r (pop ''scheme'' d1) (\<lambda>(sc, d2).
     bind_r (pop ''keyval'' d2) (\<lambda>(kv, d3).
     bind_r (Key_init kt sc kv (Some d3)) (\<lambda>k. Inr (k, d3)))))"

text \<open>
  In a dict display \<^verbatim>\<open>{"a": x, **rest}\<close> the entries of \<^verbatim>\<open>rest\<close> come last and win.
\<close>

definition Key_to_dict :: "Key \<Rightarrow> dict" where
  "Key_to_dict k =
     fmupd ''keyval'' (keyval k) (fmupd ''scheme'' (scheme k) (fmupd ''keytype'' (keytype k) fmempty))
       ++\<^sub>f key_unrecognized_fields k"

text \<open>
  \<^verbatim>\<open>Role.keyids\<close> is a Python set. The order in which \<^verbatim>\<open>list(self.keyids)\<close> lists its
  members is not determined by the program: it is the parameter \<open>list_of\<close> of
  \<^verbatim>\<open>to_dict\<close>.
\<close>

record Role =
  keyids :: "json set"
  threshold :: json
  role_unrecognized_fields :: dict

text \<open>
  \<^verbatim>\<open>Role.__init__\<close>: \<^verbatim>\<open>set(keyids)\<close> needs an iterable of hashable members, and
  must be as long as \<^verbatim>\<open>keyids\<close>.
\<close>

definition Role_init :: "json \<Rightarrow> json \<Rightarrow> dict option \<Rightarrow> error + Role" where
  "Role_init ks th u =
     bind_r (py_iter ks) (\<lambda>xs.
       if \<not> list_all hashable xs then Inl TypeError
       else if card (set xs) \<noteq> length xs then Inl ValueError
       else Inr \<lparr>keyids = set xs, threshold = th, role_unrecognized_fields = or_empty u\<rparr>)"

definition Role_from_dict :: "dict \<Rightarrow> error + (Role \<times> dict)" where
  "Role_from_dict role_dict =
     bind_r (pop ''keyids'' role_dict) (\<lambda>(ks, d1).
     bind_r (pop ''threshold'' d1) (\<lambda>(th, d2).
     bind_r (Role_init ks th (Some d2)) (\<lambda>r. Inr (r, d2))))"

definition Role_to_dict :: "(json set \<Rightarrow> json list) \<Rightarrow> 'a Role_scheme \<Rightarrow> dict" where
  "Role_to_dict list_of r =
     fmupd ''threshold'' (threshold r) (fmupd ''keyids'' (JList (list_of (keyids r))) fmempty)
       ++\<^sub>f role_unrecognized_fields r"

record DelegatedRole = Role +
  name :: json
  terminating :: json
  paths :: json
  path_hash_prefixes :: json

text \<open>
  \<^verbatim>\<open>DelegatedRole.__init__\<close>: the constructor of \<^verbatim>\<open>Role\<close> first, then
  \<^verbatim>\<open>paths and path_hash_prefixes\<close> must not both be set.
\<close>

definition DelegatedRole_init ::
  "json \<Rightarrow> json \<Rightarrow> json \<Rightarrow> json \<Rightarrow> json \<Rightarrow> json \<Rightarrow> dict option \<Rightarrow> error + DelegatedRole" where
  "DelegatedRole_init nm ks th term ps php u =
     bind_r (Role_init ks th u) (\<lambda>ro.
       if truthy ps \<and> truthy php then Inl ValueError
       else Inr \<lparr>keyids = keyids ro, threshold = threshold ro,
                 role_unrecognized_fields = role_unrecognized_fields ro,
                 name = nm, terminating = term, paths = ps, path_hash_prefixes = php\<rparr>)"

definition DelegatedRole_from_dict :: "dict \<Rightarrow> error + (DelegatedRole \<times> dict)" where
  "DelegatedRole_from_dict role_dict =
     bind_r (pop ''name'' role_dict) (\<lambda>(nm, d1).
     bind_r (pop ''keyids'' d1) (\<lambda>(ks, d2).
     bind_r (pop ''threshold'' d2) (\<lambda>(th, d3).
     bind_r (pop ''terminating'' d3) (\<lambda>(term, d4).
       (case pop_default ''paths'' JNull d4 of (ps, d5) \<Rightarrow>
       (case pop_default ''path_hash_prefixes'' JNull d5 of (php, d6) \<Rightarrow>
          bind_r (DelegatedRole_init nm ks th term ps php (Some d6)) (\<lambda>r. Inr (r, d6))))))))"

definition DelegatedRole_to_dict :: "(json set \<Rightarrow> json list) \<Rightarrow> DelegatedRole \<Rightarrow> dict" where
  "DelegatedRole_to_dict list_of r =
     (let base_role_dict = Role_to_dict list_of r;
          res_dict = fmupd ''terminating'' (terminating r) (fmupd ''name'' (name r) fmempty)
                       ++\<^sub>f base_role_dict
      in if truthy (paths r) then fmupd ''paths'' (paths r) res_dict
         else if truthy (path_hash_prefixes r)
              then fmupd ''path_hash_prefixes'' (path_hash_prefixes r) res_dict
              else res_dict)"

record Delegations =
  deleg_keys :: "(string, Key) fmap"
  deleg_roles :: "DelegatedRole list"
  deleg_unrecognized_fields :: dict

text \<open>
  \<^verbatim>\<open>Delegations.from_dict\<close>: the keys are popped and decoded before the roles are
  popped.
\<close>

definition Delegations_from_dict :: "dict \<Rightarrow> error + (Delegations \<times> dict)" where
  "Delegations_from_dict delegations_dict =
     bind_r (pop ''keys'' delegations_dict) (\<lambda>(ks, d1).
     bind_r (as_dict ks) (\<lambda>ksd.
     bind_r (fm_traverse (\<lambda>key_dict. bind_r (as_popable key_dict) (\<lambda>kd.
                            bind_r (Key_from_dict kd) (\<lambda>(k, rest). Inr k))) ksd) (\<lambda>keys_res.
     bind_r (pop ''roles'' d1) (\<lambda>(rs, d2).
     bind_r (py_iter rs) (\<lambda>rsl.
     bind_r (list_traverse (\<lambda>role_dict. bind_r (as_popable role_dict) (\<lambda>rd.
                              bind_r (DelegatedRole_from_dict rd) (\<lambda>(r, rest). Inr r))) rsl) (\<lambda>roles_res.
       Inr (\<lparr>deleg_keys = keys_res, deleg_roles = roles_res,
              deleg_unrecognized_fields = or_empty (Some d2)\<rparr>, d2)))))))"

definition Delegations_to_dict :: "(json set \<Rightarrow> json list) \<Rightarrow> Delegations \<Rightarrow> dict" where
  "Delegations_to_dict list_of dl =
     fmupd ''roles'' (JList (map (\<lambda>role_obj. JDict (DelegatedRole_to_dict list_of role_obj)) (deleg_roles dl)))
       (fmupd ''keys'' (JDict (fmmap (\<lambda>key. JDict (Key_to_dict key)) (deleg_keys dl))) fmempty)
       ++\<^sub>f deleg_unrecognized_fields dl"

text \<open>
  The root key store holds \<^verbatim>\<open>Key\<close> objects after \<^verbatim>\<open>Root.from_dict\<close>, and whatever
  \<^verbatim>\<open>add_key\<close> is given as \<^verbatim>\<open>key_metadata\<close>, a dict by its annotation.
\<close>

datatype key_entry = KeyObj Key | KeyDict dict

section \<open>The signed payload\<close>

record Signed =
  version :: int
  spec_version :: json
  expires :: datetime
  unrecognized_fields :: dict

record Root = Signed +
  consistent_snapshot :: json
  keys :: "(string, key_entry) fmap"
  roles :: "(string, Role) fmap"

text \<open>
  \<^verbatim>\<open>Signed.__init__\<close>: the version is compared with 0, which needs a number, and must
  be positive.
\<close>

definition Signed_init :: "json \<Rightarrow> json \<Rightarrow> datetime \<Rightarrow> dict option \<Rightarrow> error + Signed" where
  "Signed_init v sv ex u =
     (case v of
        JInt i \<Rightarrow>
          if i \<le> 0 then Inl ValueError
          else Inr \<lparr>version = i, spec_version = sv, expires = ex, unrecognized_fields = or_empty u\<rparr>
      | other \<Rightarrow> Inl TypeError)"

text \<open>
  \<^verbatim>\<open>Signed._common_fields_from_dict\<close>, for the class whose \<^verbatim>\<open>_signed_type\<close> is given.
  \<^verbatim>\<open>formats.expiry_string_to_datetime\<close> belongs to a module that is not part of the
  model: it is the parameter \<open>expiry_string_to_datetime\<close>.
\<close>

definition common_fields_from_dict ::
  "string \<Rightarrow> (json \<Rightarrow> error + datetime) \<Rightarrow> dict \<Rightarrow> error + ((json \<times> json \<times> datetime) \<times> dict)" where
  "common_fields_from_dict signed_type expiry_string_to_datetime signed_dict =
     bind_r (pop ''_type'' signed_dict) (\<lambda>(ty, d1).
       if ty \<noteq> JStr signed_type then Inl ValueError
       else
         bind_r (pop ''version'' d1) (\<lambda>(v, d2).
         bind_r (pop ''spec_version'' d2) (\<lambda>(sv, d3).
         bind_r (pop ''expires'' d3) (\<lambda>(expires_str, d4).
         bind_r (expiry_string_to_datetime expires_str) (\<lambda>ex.
           Inr ((v, sv, ex), d4))))))"

text \<open>
  \<^verbatim>\<open>Signed._common_fields_to_dict\<close>; \<^verbatim>\<open>datetime.isoformat\<close> is the parameter
  \<open>isoformat\<close>.
\<close>

definition common_fields_to_dict ::
  "string \<Rightarrow> (datetime \<Rightarrow> string) \<Rightarrow> 'a Signed_scheme \<Rightarrow> dict" where
  "common_fields_to_dict signed_type isoformat s =
     fmupd ''expires'' (JStr (isoformat (expires s) @ ''Z''))
       (fmupd ''spec_version'' (spec_version s)
         (fmupd ''version'' (JInt (version s))
           (fmupd ''_type'' (JStr signed_type) fmempty)))
       ++\<^sub>f unrecognized_fields s"

text \<open>
  \<^verbatim>\<open>Signed.is_expired\<close>: the reference time defaults to the clock's reading
  \<^verbatim>\<open>datetime.utcnow()\<close>, the first argument here.
\<close>

definition is_expired :: "datetime \<Rightarrow> 'a Signed_scheme \<Rightarrow> datetime option \<Rightarrow> bool" where
  "is_expired utcnow s reference_time =
     (let t = (case reference_time of None \<Rightarrow> utcnow | Some t \<Rightarrow> t)
      in t \<ge> expires s)"

text \<open>\<^verbatim>\<open>Signed.bump_expiration\<close>: the delta defaults to one day.\<close>

definition bump_expiration :: "timedelta option \<Rightarrow> 'a Signed_scheme \<Rightarrow> 'a Signed_scheme" where
  "bump_expiration delta s =
     s\<lparr>expires := expires s + (case delta of None \<Rightarrow> timedelta_days 1 | Some d \<Rightarrow> d)\<rparr>"

definition bump_version :: "'a Signed_scheme \<Rightarrow> 'a Signed_scheme" where
  "bump_version s = s\<lparr>version := version s + 1\<rparr>"

section \<open>Root: the key store and the roles\<close>

text \<open>
  A method that mutates its object returns the object as the call leaves it, together
  with the exception or the result: a call that raises half way leaves the changes made
  before the exception.

  \<^verbatim>\<open>Root.add_key\<close>: \<^verbatim>\<open>self.roles[role].keyids.add(keyid)\<close>, then
  \<^verbatim>\<open>self.keys[keyid] = key_metadata\<close>.
\<close>

definition add_key :: "string \<Rightarrow> string \<Rightarrow> dict \<Rightarrow> Root \<Rightarrow> Root \<times> (error + unit)" where
  "add_key role keyid key_metadata r =
     (case fmlookup (roles r) role of
        None \<Rightarrow> (r, Inl (KeyError role))
      | Some ro \<Rightarrow>
          (let r1 = r\<lparr>roles := fmupd role (ro\<lparr>keyids := insert (JStr keyid) (keyids ro)\<rparr>) (roles r)\<rparr>
           in (r1\<lparr>keys := fmupd keyid (KeyDict key_metadata) (keys r1)\<rparr>, Inr ())))"

text \<open>
  The loop of \<^verbatim>\<open>remove_key\<close> returns as soon as a role holds the key id: the rest of
  the method runs when no role does.
\<close>

definition referenced :: "string \<Rightarrow> (string, Role) fmap \<Rightarrow> bool" where
  "referenced keyid rs = (\<not> fmpred (\<lambda>role_name keyinfo. JStr keyid \<notin> keyids keyinfo) rs)"

text \<open>
  \<^verbatim>\<open>Root.remove_key\<close>: \<^verbatim>\<open>self.roles[role]\<close> and \<^verbatim>\<open>keyids.remove(keyid)\<close> raise
  \<^verbatim>\<open>KeyError\<close> before anything changes; \<^verbatim>\<open>del self.keys[keyid]\<close> raises it after the
  role has lost the key id.
\<close>

definition remove_key :: "string \<Rightarrow> string \<Rightarrow> Root \<Rightarrow> Root \<times> (error + unit)" where
  "remove_key role keyid r =
     (case fmlookup (roles r) role of
        None \<Rightarrow> (r, Inl (KeyError role))
      | Some ro \<Rightarrow>
          if JStr keyid \<notin> keyids ro then (r, Inl (KeyError keyid))
          else
            (let r1 = r\<lparr>roles := fmupd role (ro\<lparr>keyids := keyids ro - {JStr keyid}\<rparr>) (roles r)\<rparr>
             in if referenced keyid (roles r1) then (r1, Inr ())
                else (case fmlookup (keys r1) keyid of
                        None \<Rightarrow> (r1, Inl (KeyError keyid))
                      | Some k \<Rightarrow> (r1\<lparr>keys := fmdrop keyid (keys r1)\<rparr>, Inr ()))))"

section \<open>Root, Timestamp, Snapshot, Targets: decoding and encoding\<close>

text \<open>
  \<^verbatim>\<open>Root.from_dict\<close>: the constructor, and with it the check of the version, runs after
  the keys and the roles have been decoded.
\<close>

definition Root_from_dict :: "(json \<Rightarrow> error + datetime) \<Rightarrow> dict \<Rightarrow> error + (Root \<times> dict)" where
  "Root_from_dict expiry_string_to_datetime root_dict =
     bind_r (common_fields_from_dict ''root'' expiry_string_to_datetime root_dict) (\<lambda>((v, sv, ex), d1).
     bind_r (pop ''consistent_snapshot'' d1) (\<lambda>(cs, d2).
     bind_r (pop ''keys'' d2) (\<lambda>(ks, d3).
     bind_r (pop ''roles'' d3) (\<lambda>(rs, d4).
     bind_r (as_dict ks) (\<lambda>ksd.
     bind_r (fm_traverse (\<lambda>key_dict. bind_r (as_popable key_dict) (\<lambda>kd.
                            bind_r (Key_from_dict kd) (\<lambda>(k, rest). Inr (KeyObj k)))) ksd) (\<lambda>keys_res.
     bind_r (as_dict rs) (\<lambda>rsd.
     bind_r (fm_traverse (\<lambda>role_dict. bind_r (as_popable role_dict) (\<lambda>rd.
                            bind_r (Role_from_dict rd) (\<lambda>(r, rest). Inr r))) rsd) (\<lambda>roles_res.
     bind_r (Signed_init v sv ex (Some d4)) (\<lambda>sg.
       Inr (\<lparr>version = version sg, spec_version = spec_version sg, expires = expires sg,
              unrecognized_fields = unrecognized_fields sg,
              consistent_snapshot = cs, keys = keys_res, roles = roles_res\<rparr>, d4))))))))))"

text \<open>
  \<^verbatim>\<open>Root.to_dict\<close> calls \<^verbatim>\<open>key.to_dict()\<close> on every entry of the key store: an entry
  that \<^verbatim>\<open>add_key\<close> stored as a dict has no such method.
\<close>

definition key_entry_to_dict :: "key_entry \<Rightarrow> error + json" where
  "key_entry_to_dict e = (case e of KeyObj k \<Rightarrow> Inr (JDict (Key_to_dict k)) | KeyDict d \<Rightarrow> Inl AttributeError)"

definition Root_to_dict :: "(datetime \<Rightarrow> string) \<Rightarrow> (json set \<Rightarrow> json list) \<Rightarrow> Root \<Rightarrow> error + dict" where
  "Root_to_dict isoformat list_of r =
     (let root_dict = common_fields_to_dict ''root'' isoformat r
      in bind_r (fm_traverse key_entry_to_dict (keys r)) (\<lambda>ks.
           let rs = fmmap (\<lambda>role. JDict (Role_to_dict list_of role)) (roles r)
           in Inr (fmupd ''roles'' (JDict rs)
                    (fmupd ''keys'' (JDict ks)
                      (fmupd ''consistent_snapshot'' (consistent_snapshot r) root_dict)))))"

record Timestamp = Signed +
  ts_meta :: json

definition Timestamp_from_dict :: "(json \<Rightarrow> error + datetime) \<Rightarrow> dict \<Rightarrow> error + (Timestamp \<times> dict)" where
  "Timestamp_from_dict expiry_string_to_datetime timestamp_dict =
     bind_r (common_fields_from_dict ''timestamp'' expiry_string_to_datetime timestamp_dict)
       (\<lambda>((v, sv, ex), d1).
     bind_r (pop ''meta'' d1) (\<lambda>(m, d2).
     bind_r (Signed_init v sv ex (Some d2)) (\<lambda>sg.
       Inr (\<lparr>version = version sg, spec_version = spec_version sg, expires = expires sg,
              unrecognized_fields = unrecognized_fields sg, ts_meta = m\<rparr>, d2))))"

definition Timestamp_to_dict :: "(datetime \<Rightarrow> string) \<Rightarrow> Timestamp \<Rightarrow> error + dict" where
  "Timestamp_to_dict isoformat t =
     Inr (fmupd ''meta'' (ts_meta t) (common_fields_to_dict ''timestamp'' isoformat t))"

text \<open>
  The entry that \<^verbatim>\<open>Timestamp.update\<close> and \<^verbatim>\<open>Snapshot.update\<close> write: the version,
  and the length and the hashes when they are not \<^verbatim>\<open>None\<close>.
\<close>

definition meta_entry :: "json \<Rightarrow> json option \<Rightarrow> json option \<Rightarrow> dict" where
  "meta_entry v len hashes =
     (let e0 = fmupd ''version'' v fmempty;
          e1 = (case len of None \<Rightarrow> e0 | Some l \<Rightarrow> fmupd ''length'' l e0)
      in (case hashes of None \<Rightarrow> e1 | Some h \<Rightarrow> fmupd ''hashes'' h e1))"

text \<open>\<^verbatim>\<open>x[k] = v\<close> needs a dict; on any other decoded value it raises.\<close>

definition setitem :: "json \<Rightarrow> string \<Rightarrow> json \<Rightarrow> error + json" where
  "setitem x k v = (case x of JDict d \<Rightarrow> Inr (JDict (fmupd k v d)) | other \<Rightarrow> Inl TypeError)"

definition Timestamp_update ::
  "json \<Rightarrow> json option \<Rightarrow> json option \<Rightarrow> Timestamp \<Rightarrow> Timestamp \<times> (error + unit)" where
  "Timestamp_update v len hashes t =
     (case setitem (ts_meta t) ''snapshot.json'' (JDict (meta_entry v len hashes)) of
        Inl e \<Rightarrow> (t, Inl e)
      | Inr m \<Rightarrow> (t\<lparr>ts_meta := m\<rparr>, Inr ()))"

record Snapshot = Signed +
  sn_meta :: json

definition Snapshot_from_dict :: "(json \<Rightarrow> error + datetime) \<Rightarrow> dict \<Rightarrow> error + (Snapshot \<times> dict)" where
  "Snapshot_from_dict expiry_string_to_datetime snapshot_dict =
     bind_r (common_fields_from_dict ''snapshot'' expiry_string_to_datetime snapshot_dict)
       (\<lambda>((v, sv, ex), d1).
     bind_r (pop ''meta'' d1) (\<lambda>(m, d2).
     bind_r (Signed_init v sv ex (Some d2)) (\<lambda>sg.
       Inr (\<lparr>version = version sg, spec_version = spec_version sg, expires = expires sg,
              unrecognized_fields = unrecognized_fields sg, sn_meta = m\<rparr>, d2))))"

definition Snapshot_to_dict :: "(datetime \<Rightarrow> string) \<Rightarrow> Snapshot \<Rightarrow> error + dict" where
  "Snapshot_to_dict isoformat sn =
     Inr (fmupd ''meta'' (sn_meta sn) (common_fields_to_dict ''snapshot'' isoformat sn))"

definition Snapshot_update ::
  "string \<Rightarrow> json \<Rightarrow> json option \<Rightarrow> json option \<Rightarrow> Snapshot \<Rightarrow> Snapshot \<times> (error + unit)" where
  "Snapshot_update rolename v len hashes sn =
     (let metadata_fn = rolename @ ''.json''
      in case setitem (sn_meta sn) metadata_fn (JDict (meta_entry v len hashes)) of
           Inl e \<Rightarrow> (sn, Inl e)
         | Inr m \<Rightarrow> (sn\<lparr>sn_meta := m\<rparr>, Inr ()))"

text \<open>
  \<^verbatim>\<open>Targets.delegations\<close> is a \<^verbatim>\<open>Delegations\<close> object when the record has a
  \<^verbatim>\<open>delegations\<close> entry that is not empty; otherwise it is the value popped, or
  \<^verbatim>\<open>None\<close>, as it is.
\<close>

datatype delegations_attr = DelegationsObj Delegations | DelegationsRaw json

record Targets = Signed +
  targets :: json
  delegations :: delegations_attr

definition Targets_from_dict :: "(json \<Rightarrow> error + datetime) \<Rightarrow> dict \<Rightarrow> error + (Targets \<times> dict)" where
  "Targets_from_dict expiry_string_to_datetime targets_dict =
     bind_r (common_fields_from_dict ''targets'' expiry_string_to_datetime targets_dict)
       (\<lambda>((v, sv, ex), d1).
     bind_r (pop ''targets'' d1) (\<lambda>(tg, d2).
       (case pop_default ''delegations'' JNull d2 of (dj, d3) \<Rightarrow>
          bind_r (if truthy dj
                  then bind_r (as_popable dj) (\<lambda>dd.
                         bind_r (Delegations_from_dict dd) (\<lambda>(dl, rest). Inr (DelegationsObj dl)))
                  else Inr (DelegationsRaw dj)) (\<lambda>dl.
          bind_r (Signed_init v sv ex (Some d3)) (\<lambda>sg.
            Inr (\<lparr>version = version sg, spec_version = spec_version sg, expires = expires sg,
                   unrecognized_fields = unrecognized_fields sg,
                   targets = tg, delegations = dl\<rparr>, d3))))))"

text \<open>
  \<^verbatim>\<open>Targets.to_dict\<close>: \<^verbatim>\<open>if self.delegations\<close> holds of every \<^verbatim>\<open>Delegations\<close>
  object, and of no empty value.
\<close>

definition Targets_to_dict :: "(datetime \<Rightarrow> string) \<Rightarrow> (json set \<Rightarrow> json list) \<Rightarrow> Targets \<Rightarrow> error + dict" where
  "Targets_to_dict isoformat list_of t =
     (let targets_dict = fmupd ''targets'' (targets t) (common_fields_to_dict ''targets'' isoformat t)
      in case delegations t of
           DelegationsObj dl \<Rightarrow>
             Inr (fmupd ''delegations'' (JDict (Delegations_to_dict list_of dl)) targets_dict)
         | DelegationsRaw j \<Rightarrow> if truthy j then Inl AttributeError else Inr targets_dict)"

definition Targets_update :: "string \<Rightarrow> json \<Rightarrow> Targets \<Rightarrow> Targets \<times> (error + unit)" where
  "Targets_update filename fileinfo t =
     (case setitem (targets t) filename fileinfo of
        Inl e \<Rightarrow> (t, Inl e)
      | Inr m \<Rightarrow> (t\<lparr>targets := m\<rparr>, Inr ()))"

section \<open>The metadata envelope\<close>

text \<open>
  Modelled from the spec: \<^verbatim>\<open>securesystemslib.signer.Signature\<close> is not part of the
  source. A signature is a key id and a signature value; its wire record is
  \<^verbatim>\<open>{"keyid": ..., "sig": ...}\<close>.
\<close>

record Signature =
  keyid :: json
  signature :: json

definition Signature_from_dict :: "json \<Rightarrow> error + Signature" where
  "Signature_from_dict signature_dict =
     (case signature_dict of
        JDict d \<Rightarrow>
          (case fmlookup d ''keyid'' of
             None \<Rightarrow> Inl (KeyError ''keyid'')
           | Some k \<Rightarrow>
               (case fmlookup d ''sig'' of
                  None \<Rightarrow> Inl (KeyError ''sig'')
                | Some sg \<Rightarrow> Inr \<lparr>keyid = k, signature = sg\<rparr>))
      | other \<Rightarrow> Inl TypeError)"

definition Signature_to_dict :: "Signature \<Rightarrow> dict" where
  "Signature_to_dict sg = fmupd ''sig'' (signature sg) (fmupd ''keyid'' (keyid sg) fmempty)"

datatype payload = PTargets Targets | PSnapshot Snapshot | PTimestamp Timestamp | PRoot Root

record Metadata =
  signed :: payload
  signatures :: "Signature list"

text \<open>\<^verbatim>\<open>x[k]\<close> for a string \<open>k\<close>: a dict is looked up, nothing else takes a string index.\<close>

definition getitem :: "json \<Rightarrow> string \<Rightarrow> error + json" where
  "getitem x k =
     (case x of
        JDict d \<Rightarrow> (case fmlookup d k of None \<Rightarrow> Inl (KeyError k) | Some v \<Rightarrow> Inr v)
      | other \<Rightarrow> Inl TypeError)"

text \<open>The \<^verbatim>\<open>from_dict\<close> of the class that \<^verbatim>\<open>Metadata.from_dict\<close> dispatches to.\<close>

definition inner_from_dict ::
  "json \<Rightarrow> (json \<Rightarrow> error + datetime) \<Rightarrow> (dict \<Rightarrow> error + payload) option" where
  "inner_from_dict ty expiry_string_to_datetime =
     (if ty = JStr ''targets''
      then Some (\<lambda>d. bind_r (Targets_from_dict expiry_string_to_datetime d) (\<lambda>(x, rest). Inr (PTargets x)))
      else if ty = JStr ''snapshot''
      then Some (\<lambda>d. bind_r (Snapshot_from_dict expiry_string_to_datetime d) (\<lambda>(x, rest). Inr (PSnapshot x)))
      else if ty = JStr ''timestamp''
      then Some (\<lambda>d. bind_r (Timestamp_from_dict expiry_string_to_datetime d) (\<lambda>(x, rest). Inr (PTimestamp x)))
      else if ty = JStr ''root''
      then Some (\<lambda>d. bind_r (Root_from_dict expiry_string_to_datetime d) (\<lambda>(x, rest). Inr (PRoot x)))
      else None)"

text \<open>
  \<^verbatim>\<open>Metadata.from_dict\<close>: the type is read, the signatures are popped and decoded one
  by one into a list, the payload is popped and decoded.
\<close>

definition Metadata_from_dict :: "(json \<Rightarrow> error + datetime) \<Rightarrow> dict \<Rightarrow> error + (Metadata \<times> dict)" where
  "Metadata_from_dict expiry_string_to_datetime metadata =
     bind_r (getitem (JDict metadata) ''signed'') (\<lambda>sd.
     bind_r (getitem sd ''_type'') (\<lambda>ty.
       (case inner_from_dict ty expiry_string_to_datetime of
          None \<Rightarrow> Inl ValueError
        | Some inner_cls_from_dict \<Rightarrow>
            bind_r (pop ''signatures'' metadata) (\<lambda>(sigs, d1).
            bind_r (py_iter sigs) (\<lambda>sigl.
            bind_r (list_traverse Signature_from_dict sigl) (\<lambda>sigs_res.
            bind_r (pop ''signed'' d1) (\<lambda>(sdj, d2).
            bind_r (as_popable sdj) (\<lambda>sdd.
            bind_r (inner_cls_from_dict sdd) (\<lambda>inner.
              Inr (\<lparr>signed = inner, signatures = sigs_res\<rparr>, d2))))))))))"

definition payload_to_dict ::
  "(datetime \<Rightarrow> string) \<Rightarrow> (json set \<Rightarrow> json list) \<Rightarrow> payload \<Rightarrow> error + dict" where
  "payload_to_dict isoformat list_of p =
     (case p of
        PTargets t \<Rightarrow> Targets_to_dict isoformat list_of t
      | PSnapshot sn \<Rightarrow> Snapshot_to_dict isoformat sn
      | PTimestamp t \<Rightarrow> Timestamp_to_dict isoformat t
      | PRoot r \<Rightarrow> Root_to_dict isoformat list_of r)"

definition Metadata_to_dict ::
  "(datetime \<Rightarrow> string) \<Rightarrow> (json set \<Rightarrow> json list) \<Rightarrow> Metadata \<Rightarrow> error + dict" where
  "Metadata_to_dict isoformat list_of md =
     (let sigs = map (\<lambda>sg. JDict (Signature_to_dict sg)) (signatures md)
      in bind_r (payload_to_dict isoformat list_of (signed md)) (\<lambda>sd.
           Inr (fmupd ''signed'' (JDict sd) (fmupd ''signatures'' (JList sigs) fmempty))))"

text \<open>
  \<^verbatim>\<open>Metadata.sign\<close>. The serializer of the payload and the signer are collaborators:
  parameters that produce the bytes and the signature, or raise. The signature is made
  first; the list is changed after that.
\<close>

definition sign ::
  "(payload \<Rightarrow> error + string) \<Rightarrow> (string \<Rightarrow> error + Signature) \<Rightarrow> bool \<Rightarrow> Metadata
     \<Rightarrow> Metadata \<times> (error + Signature)" where
  "sign serialize signer append_flag md =
     (case serialize (signed md) of
        Inl e \<Rightarrow> (md, Inl e)
      | Inr data \<Rightarrow>
          (case signer data of
             Inl e \<Rightarrow> (md, Inl e)
           | Inr sg \<Rightarrow>
               (if append_flag then md\<lparr>signatures := signatures md @ [sg]\<rparr>
                else md\<lparr>signatures := [sg]\<rparr>, Inr sg)))"

text \<open>
  \<^verbatim>\<open>Metadata.verify\<close>. \<^verbatim>\<open>securesystemslib.keys.verify_signature\<close> is a collaborator:
  the parameter \<open>verify_signature\<close> takes the key, the signature's dict and the bytes
  and returns a boolean or raises. The method has no handler around the call: what the
  collaborator raises is what the caller gets.
\<close>

definition verify ::
  "(dict \<Rightarrow> dict \<Rightarrow> string \<Rightarrow> error + bool) \<Rightarrow> (payload \<Rightarrow> error + string) \<Rightarrow> dict \<Rightarrow> Metadata
     \<Rightarrow> error + bool" where
  "verify verify_signature serialize key md =
     bind_r (getitem (JDict key) ''keyid'') (\<lambda>kid.
       (case filter (\<lambda>sg. keyid sg = kid) (signatures md) of
          [] \<Rightarrow> Inl (Error (NoSignatureForKey kid))
        | [sg] \<Rightarrow>
            bind_r (serialize (signed md)) (\<lambda>data.
              verify_signature key (Signature_to_dict sg) data)
        | sg # others \<Rightarrow> Inl (Error (SignaturesForKey (length (sg # others)) kid))))"

section \<open>Integrity records\<close>

text \<open>
  Modelled from the spec: the classes \<^verbatim>\<open>MetaFile\<close> and \<^verbatim>\<open>TargetFile\<close> and their
  method \<^verbatim>\<open>verify_length_and_hashes\<close> are not part of the source; the tests call them.
  The spec: an integrity record has an optional length and an optional map from
  hash-algorithm labels to digests. If a length is recorded, the byte count of the
  content must equal it. If a hash map is recorded, for every algorithm in it the digest
  of the content must equal the recorded one; a mismatch, or a label that is malformed
  or not supported, fails. Every failure is the same length-or-hash-mismatch error. If
  both are absent, verification succeeds.

  The hash functions are a collaborator: \<open>digest alg content\<close> is the hex digest, or the
  error the library raises for a label it does not accept.
\<close>

record IntegrityRecord =
  ir_version :: "int option"
  ir_length :: "int option"
  ir_hashes :: "(json \<times> json) list option"

fun verify_hashes :: "(json \<Rightarrow> string \<Rightarrow> error + json) \<Rightarrow> string \<Rightarrow> (json \<times> json) list \<Rightarrow> error + unit" where
  "verify_hashes digest content [] = Inr ()"
| "verify_hashes digest content ((alg, expected) # rest) =
     (case digest alg content of
        Inl e \<Rightarrow> Inl LengthOrHashMismatchError
      | Inr observed \<Rightarrow>
          if observed \<noteq> expected then Inl LengthOrHashMismatchError
          else verify_hashes digest content rest)"

definition verify_length :: "string \<Rightarrow> int \<Rightarrow> error + unit" where
  "verify_length content expected_length =
     (if int (length content) \<noteq> expected_length then Inl LengthOrHashMismatchError else Inr ())"

definition verify_length_and_hashes ::
  "(json \<Rightarrow> string \<Rightarrow> error + json) \<Rightarrow> 'a IntegrityRecord_scheme \<Rightarrow> string \<Rightarrow> error + unit" where
  "verify_length_and_hashes digest r content =
     bind_r (case ir_length r of None \<Rightarrow> Inr () | Some l \<Rightarrow> verify_length content l) (\<lambda>u.
       (case ir_hashes r of None \<Rightarrow> Inr () | Some hs \<Rightarrow> verify_hashes digest content hs))"

section \<open>Records that are encoded back as they were\<close>

text \<open>
  What the round trip \<^verbatim>\<open>to_dict(from_dict(x))\<close> asks of a record \<open>x\<close> beyond being
  decodable. The key ids of a role go through a set: the list is re-emitted as it was
  when the record has a list and the set lists its members in that order.
\<close>

definition keyids_in_listing_order :: "(json set \<Rightarrow> json list) \<Rightarrow> json \<Rightarrow> bool" where
  "keyids_in_listing_order list_of role_record =
     (case role_record of
        JDict d \<Rightarrow> (case fmlookup d ''keyids'' of
                      Some (JList xs) \<Rightarrow> list_of (set xs) = xs
                    | other \<Rightarrow> False)
      | other \<Rightarrow> False)"

text \<open>
  \<^verbatim>\<open>DelegatedRole.to_dict\<close> emits \<^verbatim>\<open>paths\<close> and \<^verbatim>\<open>path_hash_prefixes\<close> only when
  they are not empty.
\<close>

definition present_scoping_not_empty :: "json \<Rightarrow> bool" where
  "present_scoping_not_empty role_record =
     (case role_record of
        JDict d \<Rightarrow> (case fmlookup d ''paths'' of None \<Rightarrow> True | Some v \<Rightarrow> truthy v) \<and>
                   (case fmlookup d ''path_hash_prefixes'' of None \<Rightarrow> True | Some v \<Rightarrow> truthy v)
      | other \<Rightarrow> False)"

text \<open>The date collaborators format the date they parsed from a string as that string.\<close>

definition expires_reemitted :: "(json \<Rightarrow> error + datetime) \<Rightarrow> (datetime \<Rightarrow> string) \<Rightarrow> dict \<Rightarrow> bool" where
  "expires_reemitted expiry_string_to_datetime isoformat d =
     (case fmlookup d ''expires'' of
        Some (JStr s) \<Rightarrow> (case expiry_string_to_datetime (JStr s) of
                            Inr t \<Rightarrow> isoformat t @ ''Z'' = s
                          | Inl e \<Rightarrow> False)
      | other \<Rightarrow> False)"

text \<open>
  \<^verbatim>\<open>Delegations.to_dict\<close> emits the roles as a list; \<^verbatim>\<open>Targets.to_dict\<close> emits
  \<^verbatim>\<open>delegations\<close> only when there is a \<^verbatim>\<open>Delegations\<close> object, that is when the
  record had an entry that is not empty.
\<close>

definition delegated_roles_reencodable :: "(json set \<Rightarrow> json list) \<Rightarrow> json \<Rightarrow> bool" where
  "delegated_roles_reencodable list_of delegations_record =
     (case delegations_record of
        JDict dd \<Rightarrow> (case fmlookup dd ''roles'' of
                       Some (JList rl) \<Rightarrow>
                         list_all (\<lambda>rd. keyids_in_listing_order list_of rd \<and> present_scoping_not_empty rd) rl
                     | other \<Rightarrow> False)
      | other \<Rightarrow> False)"

definition delegations_reencodable :: "(json set \<Rightarrow> json list) \<Rightarrow> dict \<Rightarrow> bool" where
  "delegations_reencodable list_of d =
     (case fmlookup d ''delegations'' of
        None \<Rightarrow> True
      | Some dj \<Rightarrow> truthy dj \<and> delegated_roles_reencodable list_of dj)"

definition root_roles_in_listing_order :: "(json set \<Rightarrow> json list) \<Rightarrow> dict \<Rightarrow> bool" where
  "root_roles_in_listing_order list_of d =
     (case fmlookup d ''roles'' of
        Some (JDict rs) \<Rightarrow> fmpred (\<lambda>role_name rd. keyids_in_listing_order list_of rd) rs
      | other \<Rightarrow> False)"

section \<open>Sample documents and collaborators\<close>

text \<open>
  Stand-ins for the collaborators, enough for the sample documents: a date parser and
  formatter that know the one date of the samples (in microseconds since 1970), an
  order of listing for sets of key ids (the strings, sorted), a serializer, signers
  and a signature check.
\<close>

definition sample_expiry_string_to_datetime :: "json \<Rightarrow> error + datetime" where
  "sample_expiry_string_to_datetime j =
     (if j = JStr ''2030-01-01T00:00:00Z'' then Inr 1893456000000000 else Inl FormatError)"

definition sample_isoformat :: "datetime \<Rightarrow> string" where
  "sample_isoformat t = (if t = 1893456000000000 then ''2030-01-01T00:00:00'' else ''1970-01-01T00:00:00'')"

definition sample_list_of :: "json set \<Rightarrow> json list" where
  "sample_list_of S = map JStr (sorted_list_of_set (JStr -` S))"

definition sample_serialize :: "payload \<Rightarrow> error + string" where
  "sample_serialize p = Inr ''canonical''"

definition sample_signer :: "string \<Rightarrow> string \<Rightarrow> error + Signature" where
  "sample_signer kid data = Inr \<lparr>keyid = JStr kid, signature = JStr (kid @ '':'' @ data)\<rparr>"

text \<open>
  The stand-in for \<^verbatim>\<open>verify_signature\<close> raises for a scheme it does not know, as the
  library does; for the scheme \<^verbatim>\<open>ed25519\<close> it compares the signature with the one the
  stand-in signer makes.
\<close>

definition sample_verify_signature :: "dict \<Rightarrow> dict \<Rightarrow> string \<Rightarrow> error + bool" where
  "sample_verify_signature key sg data =
     (if fmlookup key ''scheme'' \<noteq> Some (JStr ''ed25519'') then Inl UnsupportedAlgorithmError
      else (case fmlookup key ''keyid'' of
              Some (JStr kid) \<Rightarrow> Inr (fmlookup sg ''sig'' = Some (JStr (kid @ '':'' @ data)))
            | other \<Rightarrow> Inl FormatError))"

definition sample_pubkey :: "string \<Rightarrow> dict" where
  "sample_pubkey kid =
     fmupd ''keyid'' (JStr kid)
       (fmupd ''keytype'' (JStr ''ed25519'')
         (fmupd ''scheme'' (JStr ''ed25519'')
           (fmupd ''keyval'' (JDict (fmupd ''public'' (JStr ''edcd0a32'') fmempty)) fmempty)))"

text \<open>The same key with its scheme set to \<^verbatim>\<open>foo\<close>, a scheme the library does not know.\<close>

definition unsupported_scheme_pubkey :: "string \<Rightarrow> dict" where
  "unsupported_scheme_pubkey kid = fmupd ''scheme'' (JStr ''foo'') (sample_pubkey kid)"

definition sample_role :: Role where
  "sample_role = \<lparr>keyids = {JStr ''k1''}, threshold = JInt 1, role_unrecognized_fields = fmempty\<rparr>"

definition sample_key :: Key where
  "sample_key = \<lparr>keytype = JStr ''ed25519'', scheme = JStr ''ed25519'',
     keyval = JDict (fmupd ''public'' (JStr ''edcd0a32'') fmempty), key_unrecognized_fields = fmempty\<rparr>"

text \<open>A root whose roles \<^verbatim>\<open>root\<close> and \<^verbatim>\<open>targets\<close> both hold the key \<^verbatim>\<open>k1\<close>.\<close>

definition sample_root :: Root where
  "sample_root = \<lparr>version = 1, spec_version = JStr ''1.0.0'', expires = 1893456000000000,
     unrecognized_fields = fmempty,
     consistent_snapshot = JBool False,
     keys = fmupd ''k1'' (KeyObj sample_key) fmempty,
     roles = fmupd ''root'' sample_role (fmupd ''targets'' sample_role fmempty)\<rparr>"

text \<open>
  The wire record of a root whose role \<^verbatim>\<open>root\<close> names the key \<^verbatim>\<open>k1\<close> while the key
  store is empty, and the root it decodes to. Nothing in \<^verbatim>\<open>Root.from_dict\<close> compares
  the key ids of the roles with the key store.
\<close>

definition dangling_root_dict :: dict where
  "dangling_root_dict =
     fmupd ''_type'' (JStr ''root'')
       (fmupd ''version'' (JInt 1)
         (fmupd ''spec_version'' (JStr ''1.0.0'')
           (fmupd ''expires'' (JStr ''2030-01-01T00:00:00Z'')
             (fmupd ''consistent_snapshot'' (JBool False)
               (fmupd ''keys'' (JDict fmempty)
                 (fmupd ''roles'' (JDict (fmupd ''root''
                     (JDict (fmupd ''keyids'' (JList [JStr ''k1''])
                              (fmupd ''threshold'' (JInt 1) fmempty))) fmempty))
                   fmempty))))))"

definition dangling_root :: Root where
  "dangling_root = \<lparr>version = 1, spec_version = JStr ''1.0.0'', expires = 1893456000000000,
     unrecognized_fields = fmempty,
     consistent_snapshot = JBool False,
     keys = fmempty,
     roles = fmupd ''root'' sample_role fmempty\<rparr>"

text \<open>A timestamp record, alone and in an envelope with two signatures by the same key.\<close>

definition sample_timestamp_dict :: dict where
  "sample_timestamp_dict =
     fmupd ''_type'' (JStr ''timestamp'')
       (fmupd ''version'' (JInt 1)
         (fmupd ''spec_version'' (JStr ''1.0.0'')
           (fmupd ''expires'' (JStr ''2030-01-01T00:00:00Z'')
             (fmupd ''meta'' (JDict (fmupd ''snapshot.json''
                 (JDict (fmupd ''version'' (JInt 1) fmempty)) fmempty))
               fmempty))))"

definition sample_timestamp :: Timestamp where
  "sample_timestamp = \<lparr>version = 1, spec_version = JStr ''1.0.0'', expires = 1893456000000000,
     unrecognized_fields = fmempty,
     ts_meta = JDict (fmupd ''snapshot.json'' (JDict (fmupd ''version'' (JInt 1) fmempty)) fmempty)\<rparr>"

definition duplicate_signatures_dict :: dict where
  "duplicate_signatures_dict =
     fmupd ''signatures''
       (JList [JDict (fmupd ''keyid'' (JStr ''k1'') (fmupd ''sig'' (JStr ''aa'') fmempty)),
               JDict (fmupd ''keyid'' (JStr ''k1'') (fmupd ''sig'' (JStr ''foo'') fmempty))])
       (fmupd ''signed'' (JDict sample_timestamp_dict) fmempty)"

definition sample_metadata :: Metadata where
  "sample_metadata = \<lparr>signed = PTimestamp sample_timestamp, signatures = []\<rparr>"

text \<open>The timestamp record in an envelope without signatures, and a key record.\<close>

definition sample_metadata_dict :: dict where
  "sample_metadata_dict =
     fmupd ''signatures'' (JList []) (fmupd ''signed'' (JDict sample_timestamp_dict) fmempty)"

definition sample_key_dict :: dict where
  "sample_key_dict =
     fmupd ''keytype'' (JStr ''ed25519'')
       (fmupd ''scheme'' (JStr ''ed25519'')
         (fmupd ''keyval'' (JDict (fmupd ''public'' (JStr ''edcd0a32'') fmempty))
           (fmupd ''d'' (JStr ''c'') fmempty)))"

text \<open>The sample metadata with one signature, by the key \<^verbatim>\<open>k1\<close>.\<close>

definition sample_signed_metadata :: Metadata where
  "sample_signed_metadata =
     \<lparr>signed = PTimestamp sample_timestamp,
      signatures = [\<lparr>keyid = JStr ''k1'', signature = JStr ''k1:canonical''\<rparr>]\<rparr>"

text \<open>
  A stand-in for the hash functions: one algorithm, whose digest is the content itself;
  any other string is a label that is not supported, anything else is malformed.
\<close>

definition sample_digest :: "json \<Rightarrow> string \<Rightarrow> error + json" where
  "sample_digest alg content =
     (case alg of
        JStr a \<Rightarrow> if a = ''identity'' then Inr (JStr content) else Inl UnsupportedAlgorithmError
      | other \<Rightarrow> Inl FormatError)"

definition sample_record :: "int option \<Rightarrow> (json \<times> json) list option \<Rightarrow> IntegrityRecord" where
  "sample_record len hs = \<lparr>ir_version = Some 1, ir_length = len, ir_hashes = hs\<rparr>"

text \<open>
  Records of the four payload types with a field that the model does not know at every
  level: in the payload, in the key records, in the role records and in the delegations.
\<close>

definition sample_role_dict :: dict where
  "sample_role_dict =
     fmupd ''keyids'' (JList [JStr ''k1''])
       (fmupd ''threshold'' (JInt 1)
         (fmupd ''e'' (JStr ''g'') fmempty))"

definition full_root_dict :: dict where
  "full_root_dict =
     fmupd ''_type'' (JStr ''root'')
       (fmupd ''version'' (JInt 1)
         (fmupd ''spec_version'' (JStr ''1.0.0'')
           (fmupd ''expires'' (JStr ''2030-01-01T00:00:00Z'')
             (fmupd ''consistent_snapshot'' (JBool False)
               (fmupd ''keys'' (JDict (fmupd ''k1'' (JDict sample_key_dict) fmempty))
                 (fmupd ''roles'' (JDict (fmupd ''root'' (JDict sample_role_dict)
                                           (fmupd ''targets'' (JDict sample_role_dict) fmempty)))
                   (fmupd ''f'' (JStr ''b'') fmempty)))))))"

definition full_snapshot_dict :: dict where
  "full_snapshot_dict =
     fmupd ''_type'' (JStr ''snapshot'')
       (fmupd ''version'' (JInt 1)
         (fmupd ''spec_version'' (JStr ''1.0.0'')
           (fmupd ''expires'' (JStr ''2030-01-01T00:00:00Z'')
             (fmupd ''meta'' (JDict (fmupd ''targets.json''
                 (JDict (fmupd ''version'' (JInt 1) fmempty)) fmempty))
               (fmupd ''f'' (JStr ''b'') fmempty)))))"

definition full_timestamp_dict :: dict where
  "full_timestamp_dict = fmupd ''f'' (JStr ''b'') sample_timestamp_dict"

text \<open>A delegated role record, with the path list given.\<close>

definition delegated_role_dict :: "json \<Rightarrow> dict" where
  "delegated_role_dict path_list =
     fmupd ''name'' (JStr ''role1'')
       (fmupd ''keyids'' (JList [JStr ''k1''])
         (fmupd ''threshold'' (JInt 1)
           (fmupd ''terminating'' (JBool False)
             (fmupd ''paths'' path_list
               (fmupd ''e'' (JStr ''g'') fmempty)))))"

definition targets_dict_with_paths :: "json \<Rightarrow> dict" where
  "targets_dict_with_paths path_list =
     fmupd ''_type'' (JStr ''targets'')
       (fmupd ''version'' (JInt 1)
         (fmupd ''spec_version'' (JStr ''1.0.0'')
           (fmupd ''expires'' (JStr ''2030-01-01T00:00:00Z'')
             (fmupd ''targets'' (JDict (fmupd ''file1.txt''
                 (JDict (fmupd ''length'' (JInt 28) fmempty)) fmempty))
               (fmupd ''delegations''
                  (JDict (fmupd ''keys'' (JDict (fmupd ''k1'' (JDict sample_key_dict) fmempty))
                           (fmupd ''roles'' (JList [JDict (delegated_role_dict path_list)])
                             (fmupd ''foo'' (JStr ''bar'') fmempty))))
                 (fmupd ''f'' (JStr ''b'') fmempty))))))"

definition full_targets_dict :: dict where
  "full_targets_dict = targets_dict_with_paths (JList [JStr ''file*.txt''])"

text \<open>
  The targets record whose delegated role has the empty path list \<^verbatim>\<open>"paths": []\<close>, and
  the object it decodes to.
\<close>

definition empty_paths_targets_dict :: dict where
  "empty_paths_targets_dict = targets_dict_with_paths (JList [])"

definition empty_paths_targets :: Targets where
  "empty_paths_targets =
     \<lparr>version = 1, spec_version = JStr ''1.0.0'', expires = 1893456000000000,
      unrecognized_fields = fmupd ''f'' (JStr ''b'') fmempty,
      targets = JDict (fmupd ''file1.txt'' (JDict (fmupd ''length'' (JInt 28) fmempty)) fmempty),
      delegations = DelegationsObj
        \<lparr>deleg_keys = fmupd ''k1''
            (sample_key\<lparr>key_unrecognized_fields := fmupd ''d'' (JStr ''c'') fmempty\<rparr>) fmempty,
         deleg_roles =
           [\<lparr>keyids = {JStr ''k1''}, threshold = JInt 1,
             role_unrecognized_fields = fmupd ''e'' (JStr ''g'') fmempty,
             name = JStr ''role1'', terminating = JBool False,
             paths = JList [], path_hash_prefixes = JNull\<rparr>],
         deleg_unrecognized_fields = fmupd ''foo'' (JStr ''bar'') fmempty\<rparr>\<rparr>"

text \<open>A delegations record with one key and one delegated role.\<close>

definition sample_delegations_dict :: dict where
  "sample_delegations_dict =
     fmupd ''keys'' (JDict (fmupd ''k1'' (JDict sample_key_dict) fmempty))
       (fmupd ''roles'' (JList [JDict (delegated_role_dict (JList [JStr ''file*.txt'']))])
         (fmupd ''foo'' (JStr ''bar'') fmempty))"

section \<open>Properties\<close>

subsection \<open>Auxiliary facts\<close>

lemma bind_r_simps [simp]:
  "bind_r (Inl e) f = Inl e" "bind_r (Inr x) f = f x"
  by (simp_all add: bind_r_def)

lemma bind_r_Inr_iff: "bind_r r f = Inr y \<longleftrightarrow> (\<exists>x. r = Inr x \<and> f x = Inr y)"
  by (cases r) simp_all

lemma fmpred_fmupd_iff:
  "fmpred P (fmupd k v m) = (P k v \<and> fmpred P (fmdrop k m))"
  by (auto simp: fmpred_iff split: if_splits)

lemma map_filter_Nil_iff: "List.map_filter g xs = [] \<longleftrightarrow> list_all (\<lambda>x. g x = None) xs"
  by (induction xs) (auto simp: List.map_filter_simps split: option.splits)

text \<open>The loop over a dict succeeds exactly when every entry does.\<close>

lemma fm_traverse_Inr_iff:
  "fm_traverse f m = Inr m' \<longleftrightarrow>
     fmpred (\<lambda>k v. \<exists>y. f v = Inr y) m \<and> m' = fmmap (\<lambda>v. projr (f v)) m"
proof -
  let ?g = "\<lambda>(k::string, v). case f v of Inl e \<Rightarrow> Some e | Inr y \<Rightarrow> None"
  have g: "(\<lambda>x. ?g x = None) = (\<lambda>(k, v). \<exists>y. f v = Inr y)"
    by (auto simp: fun_eq_iff split: sum.splits)
  have "List.map_filter ?g (sorted_list_of_fmap m) = [] \<longleftrightarrow> fmpred (\<lambda>k v. \<exists>y. f v = Inr y) m"
    unfolding map_filter_Nil_iff g by (simp add: curry_def)
  then show ?thesis
    unfolding fm_traverse_def by (auto split: list.splits)
qed

lemma fm_traverse_Inr:
  "fmpred (\<lambda>k v. \<exists>y. f v = Inr y) m \<Longrightarrow> fm_traverse f m = Inr (fmmap (\<lambda>v. projr (f v)) m)"
  by (simp add: fm_traverse_Inr_iff)

text \<open>The loop of \<^verbatim>\<open>remove_key\<close> finds a role exactly when some role holds the key id.\<close>

lemma referenced_iff:
  "referenced kid rs = (\<exists>n ro'. fmlookup rs n = Some ro' \<and> JStr kid \<in> keyids ro')"
  unfolding referenced_def fmpred_iff by blast

lemma remove_key_present:
  assumes "fmlookup (roles r) role = Some ro" and "JStr kid \<in> keyids ro"
  defines "rs \<equiv> fmupd role (ro\<lparr>keyids := keyids ro - {JStr kid}\<rparr>) (roles r)"
  shows "remove_key role kid r =
           (if referenced kid rs then (r\<lparr>roles := rs\<rparr>, Inr ())
            else if kid |\<in>| fmdom (keys r)
                 then (r\<lparr>roles := rs, keys := fmdrop kid (keys r)\<rparr>, Inr ())
                 else (r\<lparr>roles := rs\<rparr>, Inl (KeyError kid)))"
proof (cases "fmlookup (keys r) kid")
  case None
  then have "kid |\<notin>| fmdom (keys r)" by (simp add: fmdom_notI)
  with None assms(1,2) show ?thesis
    by (simp add: remove_key_def Let_def rs_def)
next
  case (Some k)
  then have "kid |\<in>| fmdom (keys r)" by (simp add: fmdomI)
  with Some assms(1,2) show ?thesis
    by (simp add: remove_key_def Let_def rs_def)
qed

subsection \<open>Decoding the sample documents\<close>

lemma sample_timestamp_decodes:
  "Timestamp_from_dict sample_expiry_string_to_datetime sample_timestamp_dict
     = Inr (sample_timestamp, fmempty)"
  by (simp add: Timestamp_from_dict_def common_fields_from_dict_def pop_def sample_timestamp_dict_def
      fmdrop_fmupd sample_expiry_string_to_datetime_def Signed_init_def or_empty_def sample_timestamp_def)

lemma sample_role_decodes:
  "Role_from_dict (fmupd ''keyids'' (JList [JStr ''k1'']) (fmupd ''threshold'' (JInt 1) fmempty))
     = Inr (sample_role, fmempty)"
  by (simp add: Role_from_dict_def pop_def fmdrop_fmupd Role_init_def or_empty_def sample_role_def)

lemma dangling_root_decodes:
  "Root_from_dict sample_expiry_string_to_datetime dangling_root_dict = Inr (dangling_root, fmempty)"
  by (simp add: Root_from_dict_def common_fields_from_dict_def pop_def dangling_root_dict_def
      fmdrop_fmupd sample_expiry_string_to_datetime_def Signed_init_def or_empty_def dangling_root_def
      fm_traverse_Inr fmpred_fmupd_iff sample_role_decodes fmmap_fmupd)

subsection \<open>The claims\<close>

text \<open>
  C1. The claim: a wire record whose signature list has two entries with the same key id
  is rejected by \<^verbatim>\<open>Metadata.from_dict\<close> with a validation error. The code decodes the
  signatures into a list and compares no key ids: the envelope with two signatures of
  the key \<^verbatim>\<open>k1\<close> decodes to a \<^verbatim>\<open>Metadata\<close> object that holds both.
\<close>

theorem from_dict_accepts_duplicate_keyids:
  "Metadata_from_dict sample_expiry_string_to_datetime duplicate_signatures_dict =
     Inr (\<lparr>signed = PTimestamp sample_timestamp,
            signatures = [\<lparr>keyid = JStr ''k1'', signature = JStr ''aa''\<rparr>,
                          \<lparr>keyid = JStr ''k1'', signature = JStr ''foo''\<rparr>]\<rparr>, fmempty)"
proof -
  have ty: "fmlookup sample_timestamp_dict ''_type'' = Some (JStr ''timestamp'')"
    by (simp add: sample_timestamp_dict_def)
  show ?thesis
    by (simp add: Metadata_from_dict_def duplicate_signatures_dict_def getitem_def ty
        inner_from_dict_def pop_def fmdrop_fmupd Signature_from_dict_def sample_timestamp_decodes)
qed

text \<open>
  \<^verbatim>\<open>sign\<close>, \<^verbatim>\<open>add_key\<close> and the \<^verbatim>\<open>update\<close> methods raise only before their first
  assignment: when they fail the object is as it was.
\<close>

lemma failure_before_first_assignment:
  "snd (sign serialize signer b md) = Inl e \<Longrightarrow> fst (sign serialize signer b md) = md"
  "snd (add_key role kid key_metadata r) = Inl e \<Longrightarrow> fst (add_key role kid key_metadata r) = r"
  "snd (Timestamp_update v len hashes t) = Inl e \<Longrightarrow> fst (Timestamp_update v len hashes t) = t"
  "snd (Snapshot_update rolename v len hashes sn) = Inl e \<Longrightarrow>
     fst (Snapshot_update rolename v len hashes sn) = sn"
  "snd (Targets_update filename fileinfo tg) = Inl e \<Longrightarrow> fst (Targets_update filename fileinfo tg) = tg"
  by (auto simp: sign_def add_key_def Timestamp_update_def Snapshot_update_def Targets_update_def Let_def
      split: sum.splits option.splits if_splits)

text \<open>
  C4. The claim: a mutating operation that fails leaves the object as it was. The root
  decoded from the record whose role \<^verbatim>\<open>root\<close> names the key \<^verbatim>\<open>k1\<close> and whose key
  store is empty: \<^verbatim>\<open>remove_key("root", "k1")\<close> takes the key id out of the role, finds
  no role left that holds it, and raises \<^verbatim>\<open>KeyError\<close> at \<^verbatim>\<open>del self.keys[keyid]\<close>. The
  call has failed and the role has lost its key id.
\<close>

theorem remove_key_fails_half_way:
  "Root_from_dict sample_expiry_string_to_datetime dangling_root_dict = Inr (dangling_root, fmempty) \<and>
   remove_key ''root'' ''k1'' dangling_root =
     (dangling_root\<lparr>roles := fmupd ''root'' (sample_role\<lparr>keyids := {}\<rparr>) fmempty\<rparr>,
      Inl (KeyError ''k1'')) \<and>
   fst (remove_key ''root'' ''k1'' dangling_root) \<noteq> dangling_root"
proof -
  have rk: "remove_key ''root'' ''k1'' dangling_root =
     (dangling_root\<lparr>roles := fmupd ''root'' (sample_role\<lparr>keyids := {}\<rparr>) fmempty\<rparr>,
      Inl (KeyError ''k1''))"
    by (simp add: remove_key_def dangling_root_def sample_role_def referenced_def fmpred_fmupd_iff)
  have "roles (fst (remove_key ''root'' ''k1'' dangling_root)) \<noteq> roles dangling_root"
  proof
    assume "roles (fst (remove_key ''root'' ''k1'' dangling_root)) = roles dangling_root"
    then have "fmlookup (roles (fst (remove_key ''root'' ''k1'' dangling_root))) ''root''
                 = fmlookup (roles dangling_root) ''root''"
      by simp
    then show False
      unfolding rk by (simp add: dangling_root_def sample_role_def)
  qed
  then have "fst (remove_key ''root'' ''k1'' dangling_root) \<noteq> dangling_root"
    by auto
  with rk dangling_root_decodes show ?thesis by simp
qed

text \<open>
  C5. For a root, a role of its roles map and a key id: when the role does not hold the
  key id, \<^verbatim>\<open>remove_key\<close> raises \<^verbatim>\<open>KeyError\<close> and changes nothing. When it does, the
  call leaves the role without the key id, and the key store without the key exactly
  when no role holds the key id any more: if a role still holds it the store is as
  before. Nothing else changes. The call returns normally unless no role holds the key
  id any more and the store had no such key: then it raises \<^verbatim>\<open>KeyError\<close>.
\<close>

theorem remove_key_spec:
  assumes "fmlookup (roles r) role = Some ro"
  shows "(JStr kid \<notin> keyids ro \<longrightarrow> remove_key role kid r = (r, Inl (KeyError kid))) \<and>
         (JStr kid \<in> keyids ro \<longrightarrow>
            (let r' = fst (remove_key role kid r);
                 still = (\<exists>n ro'. fmlookup (roles r') n = Some ro' \<and> JStr kid \<in> keyids ro')
             in roles r' = fmupd role (ro\<lparr>keyids := keyids ro - {JStr kid}\<rparr>) (roles r) \<and>
                keys r' = (if still then keys r else fmdrop kid (keys r)) \<and>
                r' = r\<lparr>roles := roles r', keys := keys r'\<rparr> \<and>
                snd (remove_key role kid r) =
                  (if still \<or> kid |\<in>| fmdom (keys r) then Inr () else Inl (KeyError kid))))"
proof (intro conjI impI)
  assume "JStr kid \<notin> keyids ro"
  with assms show "remove_key role kid r = (r, Inl (KeyError kid))"
    by (simp add: remove_key_def)
next
  assume mem: "JStr kid \<in> keyids ro"
  define rs where "rs = fmupd role (ro\<lparr>keyids := keyids ro - {JStr kid}\<rparr>) (roles r)"
  define r' where "r' = fst (remove_key role kid r)"
  define still where "still = (\<exists>n ro'. fmlookup (roles r') n = Some ro' \<and> JStr kid \<in> keyids ro')"
  note rk = remove_key_present[OF assms mem, folded rs_def]
  have roles': "roles r' = rs"
    unfolding r'_def rk by simp
  have still_ref: "still = referenced kid rs"
    unfolding still_def roles' referenced_iff ..
  have absent: "kid |\<notin>| fmdom (keys r) \<Longrightarrow> fmdrop kid (keys r) = keys r"
    by (intro fmap_ext) (auto simp: fmdom_notD)
  have keys': "keys r' = (if still then keys r else fmdrop kid (keys r))"
    unfolding r'_def rk still_ref using absent by simp
  have frame: "r' = r\<lparr>roles := roles r', keys := keys r'\<rparr>"
    unfolding r'_def rk by simp
  have res: "snd (remove_key role kid r) =
               (if still \<or> kid |\<in>| fmdom (keys r) then Inr () else Inl (KeyError kid))"
    unfolding rk still_ref by simp
  from roles' keys' frame res
  show "let r' = fst (remove_key role kid r);
            still = (\<exists>n ro'. fmlookup (roles r') n = Some ro' \<and> JStr kid \<in> keyids ro')
        in roles r' = fmupd role (ro\<lparr>keyids := keyids ro - {JStr kid}\<rparr>) (roles r) \<and>
           keys r' = (if still then keys r else fmdrop kid (keys r)) \<and>
           r' = r\<lparr>roles := roles r', keys := keys r'\<rparr> \<and>
           snd (remove_key role kid r) =
             (if still \<or> kid |\<in>| fmdom (keys r) then Inr () else Inl (KeyError kid))"
    unfolding Let_def r'_def[symmetric] still_def[symmetric] rs_def[symmetric] by blast
qed

theorem remove_key_spec_witness:
  "fmlookup (roles sample_root) ''root'' = Some sample_role \<and>
   JStr ''k1'' \<in> keyids sample_role \<and>
   keys (fst (remove_key ''root'' ''k1'' sample_root)) = keys sample_root \<and>
   snd (remove_key ''root'' ''k1'' sample_root) = Inr ()"
proof -
  have h: "fmlookup (roles sample_root) ''root'' = Some sample_role"
    by (simp add: sample_root_def)
  have m: "JStr ''k1'' \<in> keyids sample_role"
    by (simp add: sample_role_def)
  have still: "\<exists>n ro'. fmlookup (fmupd ''root'' (sample_role\<lparr>keyids := keyids sample_role - {JStr ''k1''}\<rparr>)
                      (roles sample_root)) n = Some ro' \<and> JStr ''k1'' \<in> keyids ro'"
    by (intro exI[of _ "''targets''"] exI[of _ sample_role]) (simp add: sample_root_def sample_role_def)
  from remove_key_spec[OF h, of "''k1''"] m still
  show ?thesis using h by (simp add: Let_def)
qed

text \<open>
  C7. For every signed payload and every reference time \<open>t\<close>, \<^verbatim>\<open>is_expired(t)\<close> is true
  exactly when \<open>t\<close> is at or after the expiration time; at \<open>t = expires\<close> it is true.
\<close>

theorem is_expired_iff_ge:
  "is_expired utcnow s (Some t) = (t \<ge> expires s) \<and> is_expired utcnow s (Some (expires s)) = True"
  by (simp add: is_expired_def)

text \<open>
  C10. For a root and a role name that is not in its roles map, \<^verbatim>\<open>add_key\<close> raises
  \<^verbatim>\<open>KeyError\<close>, creates no role, and leaves the roles map and the key store as they
  were.
\<close>

theorem add_key_unknown_role:
  assumes "fmlookup (roles r) role = None"
  shows "add_key role kid key_metadata r = (r, Inl (KeyError role))"
  using assms by (simp add: add_key_def)

theorem add_key_unknown_role_witness:
  "fmlookup (roles sample_root) ''snapshot'' = None \<and>
   add_key ''snapshot'' ''k2'' fmempty sample_root = (sample_root, Inl (KeyError ''snapshot''))"
proof -
  have h: "fmlookup (roles sample_root) ''snapshot'' = None"
    by (simp add: sample_root_def)
  from add_key_unknown_role[OF h] h show ?thesis by simp
qed

text \<open>
  When exactly one signature of the document has the key's id and the payload
  serializes, \<^verbatim>\<open>Metadata.verify\<close> ends as the primitive ends on that signature and the
  serialized payload: it returns what the primitive returns and raises what the
  primitive raises.
\<close>

lemma verify_single_match:
  assumes "fmlookup key ''keyid'' = Some kid"
      and "filter (\<lambda>sg. keyid sg = kid) (signatures md) = [sg]"
      and "serialize (signed md) = Inr data"
  shows "verify verify_signature serialize key md = verify_signature key (Signature_to_dict sg) data"
  using assms by (simp add: verify_def getitem_def)

text \<open>
  C3. The claim: every failure of the verification primitive during \<^verbatim>\<open>Metadata.verify\<close>
  reaches the caller as the one signature-invalid error. The document signed by the key
  \<^verbatim>\<open>k1\<close>, verified with that key after its scheme has been set to \<^verbatim>\<open>foo\<close>: the
  primitive raises \<^verbatim>\<open>UnsupportedAlgorithmError\<close>, \<^verbatim>\<open>verify\<close> has no handler around
  the call, and the caller gets that exception, not the signature-invalid error.
\<close>

theorem verify_raises_collaborator_error:
  "verify sample_verify_signature sample_serialize (unsupported_scheme_pubkey ''k1'') sample_signed_metadata
     = Inl UnsupportedAlgorithmError \<and>
   verify sample_verify_signature sample_serialize (unsupported_scheme_pubkey ''k1'') sample_signed_metadata
     \<noteq> Inl UnsignedMetadataError"
  by (simp add: verify_def getitem_def unsupported_scheme_pubkey_def sample_pubkey_def
      sample_signed_metadata_def sample_serialize_def sample_verify_signature_def)

text \<open>How \<^verbatim>\<open>sign\<close> ends when the payload serializes and the signer signs.\<close>

lemma sign_ok:
  assumes "serialize (signed md) = Inr data" and "signer data = Inr sg"
  shows "sign serialize signer b md =
           (if b then md\<lparr>signatures := signatures md @ [sg]\<rparr> else md\<lparr>signatures := [sg]\<rparr>, Inr sg)"
  using assms by (simp add: sign_def)

text \<open>
  C6. When the payload serializes and the signers sign: \<^verbatim>\<open>sign\<close> with
  \<^verbatim>\<open>append=True\<close> adds the one new signature at the end of the list and returns it;
  with \<^verbatim>\<open>append=False\<close> the list becomes that one signature. After signing with a key
  \<open>KA\<close> and appending a signature by a key \<open>KB\<close> with another key id, the list has the
  two signatures; \<^verbatim>\<open>verify\<close> for \<open>KA\<close> is the verification primitive applied to
  \<open>KA\<close>, the signature of \<open>KA\<close> and the serialized payload, and \<^verbatim>\<open>verify\<close> for \<open>KB\<close>
  is the primitive applied to \<open>KB\<close>, the signature of \<open>KB\<close> and the serialized
  payload: each returns true when the primitive accepts the key's own signature,
  whatever the other signature is. For a key \<open>KC\<close> with a third key id \<^verbatim>\<open>verify\<close>
  raises the error "no signature for key". Signing again without append leaves one
  signature.
\<close>

theorem sign_then_verify:
  assumes ser: "serialize (signed md) = Inr data"
      and sA: "signerA data = Inr sgA" and sB: "signerB data = Inr sgB"
      and kA: "fmlookup KA ''keyid'' = Some (keyid sgA)"
      and kB: "fmlookup KB ''keyid'' = Some (keyid sgB)"
      and kC: "fmlookup KC ''keyid'' = Some kc"
      and diff: "keyid sgA \<noteq> keyid sgB" "kc \<noteq> keyid sgA" "kc \<noteq> keyid sgB"
  shows "sign serialize signerA True md = (md\<lparr>signatures := signatures md @ [sgA]\<rparr>, Inr sgA) \<and>
         sign serialize signerA False md = (md\<lparr>signatures := [sgA]\<rparr>, Inr sgA) \<and>
         (let mda = fst (sign serialize signerA False md);
              mdb = fst (sign serialize signerB True mda)
          in signatures mdb = [sgA, sgB] \<and>
             verify verify_signature serialize KA mdb
               = verify_signature KA (Signature_to_dict sgA) data \<and>
             verify verify_signature serialize KB mdb
               = verify_signature KB (Signature_to_dict sgB) data \<and>
             (verify_signature KA (Signature_to_dict sgA) data = Inr True
                \<longrightarrow> verify verify_signature serialize KA mdb = Inr True) \<and>
             (verify_signature KB (Signature_to_dict sgB) data = Inr True
                \<longrightarrow> verify verify_signature serialize KB mdb = Inr True) \<and>
             verify verify_signature serialize KC mdb = Inl (Error (NoSignatureForKey kc)) \<and>
             signatures (fst (sign serialize signerA False mdb)) = [sgA])"
proof -
  define mda where "mda = fst (sign serialize signerA False md)"
  define mdb where "mdb = fst (sign serialize signerB True mda)"
  have mda: "mda = md\<lparr>signatures := [sgA]\<rparr>"
    unfolding mda_def by (simp add: sign_ok[where serialize = serialize and signer = signerA, OF ser sA])
  have sera: "serialize (signed mda) = Inr data"
    using ser by (simp add: mda)
  have mdb: "mdb = md\<lparr>signatures := [sgA, sgB]\<rparr>"
    unfolding mdb_def sign_ok[where serialize = serialize and signer = signerB, OF sera sB]
    by (simp add: mda)
  have serb: "serialize (signed mdb) = Inr data"
    using ser by (simp add: mdb)
  have fA: "filter (\<lambda>sg. keyid sg = keyid sgA) (signatures mdb) = [sgA]"
    using diff by (simp add: mdb)
  have fB: "filter (\<lambda>sg. keyid sg = keyid sgB) (signatures mdb) = [sgB]"
    using diff by (auto simp: mdb)
  have vA: "verify verify_signature serialize KA mdb = verify_signature KA (Signature_to_dict sgA) data"
    using kA fA serb by (rule verify_single_match)
  have vB: "verify verify_signature serialize KB mdb = verify_signature KB (Signature_to_dict sgB) data"
    using kB fB serb by (rule verify_single_match)
  have vC: "verify verify_signature serialize KC mdb = Inl (Error (NoSignatureForKey kc))"
    using kC diff by (auto simp: verify_def getitem_def mdb)
  have third: "signatures (fst (sign serialize signerA False mdb)) = [sgA]"
    by (simp add: sign_ok[where serialize = serialize and signer = signerA, OF serb sA])
  have first: "sign serialize signerA True md = (md\<lparr>signatures := signatures md @ [sgA]\<rparr>, Inr sgA)"
    using sign_ok[where serialize = serialize and signer = signerA and b = True, OF ser sA] by simp
  have second: "sign serialize signerA False md = (md\<lparr>signatures := [sgA]\<rparr>, Inr sgA)"
    using sign_ok[where serialize = serialize and signer = signerA and b = False, OF ser sA] by simp
  have sigs: "signatures mdb = [sgA, sgB]" by (simp add: mdb)
  show ?thesis
    unfolding Let_def mda_def[symmetric] mdb_def[symmetric]
    using first second sigs vA vB vC third by simp
qed

text \<open>Every failure of the hash check is the one error, and one bad entry is enough.\<close>

lemma verify_hashes_error: "verify_hashes digest content hs = Inl e \<Longrightarrow> e = LengthOrHashMismatchError"
  by (induction hs) (auto split: sum.splits if_splits)

lemma verify_hashes_bad_entry:
  "(alg, expected) \<in> set hs \<Longrightarrow> digest alg content \<noteq> Inr expected \<Longrightarrow>
   verify_hashes digest content hs = Inl LengthOrHashMismatchError"
  by (induction hs) (auto split: sum.splits if_splits)

text \<open>
  C8. For every integrity record and every content: when the record has neither a length
  nor hashes, \<^verbatim>\<open>verify_length_and_hashes\<close> succeeds; when the recorded length differs
  from the length of the content, or a recorded hash entry has a digest that differs or
  a label for which the hash collaborator raises (malformed or not supported), it fails
  with the length-or-hash-mismatch error; and it fails with no other error.
\<close>

theorem verify_length_and_hashes_spec:
  "(ir_length r = None \<and> ir_hashes r = None \<longrightarrow>
      verify_length_and_hashes digest r content = Inr ()) \<and>
   (ir_length r = Some l \<and> l \<noteq> int (length content) \<longrightarrow>
      verify_length_and_hashes digest r content = Inl LengthOrHashMismatchError) \<and>
   (ir_hashes r = Some hs \<and> (alg, expected) \<in> set hs \<and> digest alg content \<noteq> Inr expected \<longrightarrow>
      verify_length_and_hashes digest r content = Inl LengthOrHashMismatchError) \<and>
   (verify_length_and_hashes digest r content = Inl e \<longrightarrow> e = LengthOrHashMismatchError)"
proof (intro conjI impI)
  assume "ir_length r = None \<and> ir_hashes r = None"
  then show "verify_length_and_hashes digest r content = Inr ()"
    by (simp add: verify_length_and_hashes_def)
next
  assume "ir_length r = Some l \<and> l \<noteq> int (length content)"
  then show "verify_length_and_hashes digest r content = Inl LengthOrHashMismatchError"
    by (auto simp: verify_length_and_hashes_def verify_length_def)
next
  assume a: "ir_hashes r = Some hs \<and> (alg, expected) \<in> set hs \<and> digest alg content \<noteq> Inr expected"
  then have "verify_hashes digest content hs = Inl LengthOrHashMismatchError"
    by (auto intro: verify_hashes_bad_entry)
  with a show "verify_length_and_hashes digest r content = Inl LengthOrHashMismatchError"
    by (cases "ir_length r") (auto simp: verify_length_and_hashes_def verify_length_def)
next
  assume "verify_length_and_hashes digest r content = Inl e"
  then show "e = LengthOrHashMismatchError"
    by (auto simp: verify_length_and_hashes_def verify_length_def bind_r_def
        split: option.splits if_splits sum.splits dest: verify_hashes_error)
qed

theorem verify_length_and_hashes_spec_witness:
  "verify_length_and_hashes sample_digest (sample_record None None) ''any content'' = Inr () \<and>
   verify_length_and_hashes sample_digest (sample_record (Some 2345) None) ''abc''
     = Inl LengthOrHashMismatchError \<and>
   verify_length_and_hashes sample_digest (sample_record (Some 3) (Some [(JStr ''identity'', JStr ''abd'')])) ''abc''
     = Inl LengthOrHashMismatchError \<and>
   verify_length_and_hashes sample_digest (sample_record (Some 3) (Some [(JStr ''unsupported-alg'', JStr ''abc'')])) ''abc''
     = Inl LengthOrHashMismatchError \<and>
   verify_length_and_hashes sample_digest (sample_record (Some 3) (Some [(JInt 256, JStr ''abc'')])) ''abc''
     = Inl LengthOrHashMismatchError"
  using verify_length_and_hashes_spec[where r = "sample_record None None" and digest = sample_digest
           and content = "''any content''"]
        verify_length_and_hashes_spec[where r = "sample_record (Some 2345) None" and l = 2345
           and content = "''abc''" and digest = sample_digest]
        verify_length_and_hashes_spec[where r = "sample_record (Some 3) (Some [(JStr ''identity'', JStr ''abd'')])"
           and content = "''abc''" and hs = "[(JStr ''identity'', JStr ''abd'')]"
           and alg = "JStr ''identity''" and expected = "JStr ''abd''" and digest = sample_digest]
        verify_length_and_hashes_spec[where r = "sample_record (Some 3) (Some [(JStr ''unsupported-alg'', JStr ''abc'')])"
           and content = "''abc''" and hs = "[(JStr ''unsupported-alg'', JStr ''abc'')]"
           and alg = "JStr ''unsupported-alg''" and expected = "JStr ''abc''" and digest = sample_digest]
        verify_length_and_hashes_spec[where r = "sample_record (Some 3) (Some [(JInt 256, JStr ''abc'')])"
           and content = "''abc''" and hs = "[(JInt 256, JStr ''abc'')]"
           and alg = "JInt 256" and expected = "JStr ''abc''" and digest = sample_digest]
  by (simp add: sample_record_def sample_digest_def)


theorem sign_then_verify_witness:
  "sample_serialize (signed sample_metadata) = Inr ''canonical'' \<and>
   sample_signer ''k1'' ''canonical'' = Inr \<lparr>keyid = JStr ''k1'', signature = JStr ''k1:canonical''\<rparr> \<and>
   sample_signer ''k2'' ''canonical'' = Inr \<lparr>keyid = JStr ''k2'', signature = JStr ''k2:canonical''\<rparr> \<and>
   sample_verify_signature (sample_pubkey ''k1'')
     (Signature_to_dict \<lparr>keyid = JStr ''k1'', signature = JStr ''k1:canonical''\<rparr>) ''canonical'' = Inr True \<and>
   sample_verify_signature (sample_pubkey ''k2'')
     (Signature_to_dict \<lparr>keyid = JStr ''k2'', signature = JStr ''k2:canonical''\<rparr>) ''canonical'' = Inr True \<and>
   signatures (fst (sign sample_serialize (sample_signer ''k2'') True
                 (fst (sign sample_serialize (sample_signer ''k1'') False sample_metadata))))
     = [\<lparr>keyid = JStr ''k1'', signature = JStr ''k1:canonical''\<rparr>,
        \<lparr>keyid = JStr ''k2'', signature = JStr ''k2:canonical''\<rparr>] \<and>
   verify sample_verify_signature sample_serialize (sample_pubkey ''k1'')
     (fst (sign sample_serialize (sample_signer ''k2'') True
        (fst (sign sample_serialize (sample_signer ''k1'') False sample_metadata)))) = Inr True \<and>
   verify sample_verify_signature sample_serialize (sample_pubkey ''k2'')
     (fst (sign sample_serialize (sample_signer ''k2'') True
        (fst (sign sample_serialize (sample_signer ''k1'') False sample_metadata)))) = Inr True \<and>
   verify sample_verify_signature sample_serialize (sample_pubkey ''k3'')
     (fst (sign sample_serialize (sample_signer ''k2'') True
        (fst (sign sample_serialize (sample_signer ''k1'') False sample_metadata))))
     = Inl (Error (NoSignatureForKey (JStr ''k3'')))"
proof -
  let ?s1 = "\<lparr>keyid = JStr ''k1'', signature = JStr ''k1:canonical''\<rparr>"
  let ?s2 = "\<lparr>keyid = JStr ''k2'', signature = JStr ''k2:canonical''\<rparr>"
  have ser: "sample_serialize (signed sample_metadata) = Inr ''canonical''"
    by (simp add: sample_serialize_def)
  have s1: "sample_signer ''k1'' ''canonical'' = Inr ?s1"
    by (simp add: sample_signer_def)
  have s2: "sample_signer ''k2'' ''canonical'' = Inr ?s2"
    by (simp add: sample_signer_def)
  have k1: "fmlookup (sample_pubkey ''k1'') ''keyid'' = Some (keyid ?s1)"
    by (simp add: sample_pubkey_def)
  have k2: "fmlookup (sample_pubkey ''k2'') ''keyid'' = Some (keyid ?s2)"
    by (simp add: sample_pubkey_def)
  have k3: "fmlookup (sample_pubkey ''k3'') ''keyid'' = Some (JStr ''k3'')"
    by (simp add: sample_pubkey_def)
  have d1: "keyid ?s1 \<noteq> keyid ?s2" by simp
  have d2: "JStr ''k3'' \<noteq> keyid ?s1" by simp
  have d3: "JStr ''k3'' \<noteq> keyid ?s2" by simp
  have v1: "sample_verify_signature (sample_pubkey ''k1'') (Signature_to_dict ?s1) ''canonical'' = Inr True"
    by (simp add: sample_verify_signature_def sample_pubkey_def Signature_to_dict_def)
  have v2: "sample_verify_signature (sample_pubkey ''k2'') (Signature_to_dict ?s2) ''canonical'' = Inr True"
    by (simp add: sample_verify_signature_def sample_pubkey_def Signature_to_dict_def)
  from sign_then_verify[where serialize = sample_serialize and signerA = "sample_signer ''k1''"
      and signerB = "sample_signer ''k2''" and verify_signature = sample_verify_signature,
      OF ser s1 s2 k1 k2 k3 d1 d2 d3, unfolded Let_def] ser s1 s2 v1 v2
  show ?thesis by blast
qed

text \<open>What the decoders leave of the dict they are given.\<close>

lemma pop_Inr_iff: "pop k d = Inr (v, d') \<longleftrightarrow> fmlookup d k = Some v \<and> d' = fmdrop k d"
  by (auto simp: pop_def split: option.splits)

lemma Metadata_from_dict_rest:
  assumes "Metadata_from_dict p md = Inr (obj, md')"
  shows "md' = fmdrop ''signed'' (fmdrop ''signatures'' md)"
    and "''signatures'' |\<in>| fmdom md" and "''signed'' |\<in>| fmdom md"
  using assms
  by (auto simp: Metadata_from_dict_def bind_r_Inr_iff pop_Inr_iff getitem_def
      split: option.splits dest: fmdomI)

lemma Key_from_dict_rest:
  assumes "Key_from_dict kd = Inr (k, kd')"
  shows "kd' = fmdrop ''keyval'' (fmdrop ''scheme'' (fmdrop ''keytype'' kd))"
    and "''keytype'' |\<in>| fmdom kd"
  using assms
  by (auto simp: Key_from_dict_def bind_r_Inr_iff pop_Inr_iff dest: fmdomI)

lemma common_fields_from_dict_rest:
  assumes "common_fields_from_dict ty p sd = Inr (args, sd')"
  shows "sd' = fmdrop ''expires'' (fmdrop ''spec_version'' (fmdrop ''version'' (fmdrop ''_type'' sd)))"
    and "''_type'' |\<in>| fmdom sd"
  using assms
  by (auto simp: common_fields_from_dict_def bind_r_Inr_iff pop_Inr_iff split: if_splits dest: fmdomI)

lemma sample_metadata_decodes:
  "Metadata_from_dict sample_expiry_string_to_datetime sample_metadata_dict = Inr (sample_metadata, fmempty)"
proof -
  have ty: "fmlookup sample_timestamp_dict ''_type'' = Some (JStr ''timestamp'')"
    by (simp add: sample_timestamp_dict_def)
  show ?thesis
    by (simp add: Metadata_from_dict_def sample_metadata_dict_def getitem_def ty sample_metadata_def
        inner_from_dict_def pop_def fmdrop_fmupd sample_timestamp_decodes)
qed

lemma sample_key_decodes:
  "Key_from_dict sample_key_dict =
     Inr (sample_key\<lparr>key_unrecognized_fields := fmupd ''d'' (JStr ''c'') fmempty\<rparr>,
          fmupd ''d'' (JStr ''c'') fmempty)"
  by (simp add: Key_from_dict_def sample_key_dict_def pop_def fmdrop_fmupd Key_init_def get_def
      or_empty_def sample_key_def)

lemma sample_common_fields:
  "common_fields_from_dict ''timestamp'' sample_expiry_string_to_datetime sample_timestamp_dict =
     Inr ((JInt 1, JStr ''1.0.0'', 1893456000000000),
          fmupd ''meta'' (JDict (fmupd ''snapshot.json'' (JDict (fmupd ''version'' (JInt 1) fmempty)) fmempty))
            fmempty)"
  by (simp add: common_fields_from_dict_def sample_timestamp_dict_def pop_def fmdrop_fmupd
      sample_expiry_string_to_datetime_def)



subsection \<open>Decoding and encoding again\<close>

lemma fmupd_push_fmdrop: "a \<noteq> b \<Longrightarrow> fmupd a v (fmdrop b m) = fmdrop b (fmupd a v m)"
  by (simp add: fmdrop_fmupd)

lemma fmupd_fmdrop_same: "fmupd a v (fmdrop a m) = fmupd a v m"
  by (rule fmap_ext) simp

lemma fmupd_known: "fmlookup m a = Some v \<Longrightarrow> fmupd a v m = m"
  by (rule fmap_ext) auto

lemma fmdrop_absent: "fmlookup m a = None \<Longrightarrow> fmdrop a m = m"
  by (rule fmap_ext) auto

lemma fmupd_fmadd_left: "fmlookup n k = None \<Longrightarrow> fmupd k v m ++\<^sub>f n = fmupd k v (m ++\<^sub>f n)"
  by (rule fmap_ext) (auto simp: fmlookup_dom_iff)

lemmas restore = fmupd_push_fmdrop fmupd_fmdrop_same fmupd_known fmupd_fmadd_left

lemma pop_default_eq:
  "pop_default k dflt d = (case fmlookup d k of None \<Rightarrow> dflt | Some v \<Rightarrow> v, fmdrop k d)"
  by (simp add: pop_default_def fmdrop_absent split: option.splits)

lemma Key_init_Inr:
  assumes "Key_init kt sc kv (Some u) = Inr k"
  shows "k = \<lparr>keytype = kt, scheme = sc, keyval = kv, key_unrecognized_fields = u\<rparr>"
  using assms by (auto simp: Key_init_def bind_r_Inr_iff or_empty_def split: if_splits)

lemma Role_init_Inr:
  assumes "Role_init (JList xs) th (Some u) = Inr r"
  shows "r = \<lparr>keyids = set xs, threshold = th, role_unrecognized_fields = u\<rparr>"
  using assms by (auto simp: Role_init_def bind_r_Inr_iff or_empty_def split: if_splits)

lemma Key_reencodes:
  assumes "Key_from_dict kd = Inr (k, rest)"
  shows "Key_to_dict k = kd"
proof -
  from assms obtain kt sc kv where
    l: "fmlookup kd ''keytype'' = Some kt" "fmlookup kd ''scheme'' = Some sc" "fmlookup kd ''keyval'' = Some kv"
    and k: "Key_init kt sc kv (Some (fmdrop ''keyval'' (fmdrop ''scheme'' (fmdrop ''keytype'' kd)))) = Inr k"
    by (auto simp: Key_from_dict_def bind_r_Inr_iff pop_Inr_iff)
  show ?thesis
    unfolding Key_init_Inr[OF k] Key_to_dict_def using l by (simp add: restore)
qed

lemma Role_reencodes:
  assumes "Role_from_dict rd = Inr (r, rest)" and "keyids_in_listing_order list_of (JDict rd)"
  shows "Role_to_dict list_of r = rd"
proof -
  from assms(2) obtain xs where ks: "fmlookup rd ''keyids'' = Some (JList xs)" and lo: "list_of (set xs) = xs"
    by (auto simp: keyids_in_listing_order_def split: option.splits json.splits)
  from assms(1) ks obtain th where
    l: "fmlookup rd ''threshold'' = Some th"
    and k: "Role_init (JList xs) th (Some (fmdrop ''threshold'' (fmdrop ''keyids'' rd))) = Inr r"
    by (auto simp: Role_from_dict_def bind_r_Inr_iff pop_Inr_iff)
  show ?thesis
    unfolding Role_init_Inr[OF k] Role_to_dict_def using l ks lo by (simp add: restore)
qed

lemma DelegatedRole_from_dict_Inr:
  assumes dec: "DelegatedRole_from_dict rd = Inr (r, rest)"
      and ks: "fmlookup rd ''keyids'' = Some (JList xs)"
  obtains nm th tm where
    "fmlookup rd ''name'' = Some nm" "fmlookup rd ''threshold'' = Some th"
    "fmlookup rd ''terminating'' = Some tm"
    "\<not> (truthy (get ''paths'' rd) \<and> truthy (get ''path_hash_prefixes'' rd))"
    "r = \<lparr>keyids = set xs, threshold = th,
          role_unrecognized_fields =
            fmdrop ''path_hash_prefixes'' (fmdrop ''paths'' (fmdrop ''terminating''
              (fmdrop ''threshold'' (fmdrop ''keyids'' (fmdrop ''name'' rd))))),
          name = nm, terminating = tm, paths = get ''paths'' rd,
          path_hash_prefixes = get ''path_hash_prefixes'' rd\<rparr>"
proof -
  note defs = DelegatedRole_from_dict_def pop_def
  from dec obtain nm where l1: "fmlookup rd ''name'' = Some nm"
    by (cases "fmlookup rd ''name''") (simp_all add: defs)
  from dec l1 ks obtain th where l2: "fmlookup rd ''threshold'' = Some th"
    by (cases "fmlookup rd ''threshold''") (simp_all add: defs)
  from dec l1 ks l2 obtain tm where l3: "fmlookup rd ''terminating'' = Some tm"
    by (cases "fmlookup rd ''terminating''") (simp_all add: defs)
  let ?u = "fmdrop ''path_hash_prefixes'' (fmdrop ''paths'' (fmdrop ''terminating''
              (fmdrop ''threshold'' (fmdrop ''keyids'' (fmdrop ''name'' rd)))))"
  from dec l1 ks l2 l3
  have init: "bind_r (DelegatedRole_init nm (JList xs) th tm (get ''paths'' rd) (get ''path_hash_prefixes'' rd)
      (Some ?u)) (\<lambda>r. Inr (r, ?u)) = Inr (r, rest)"
    by (simp add: defs pop_default_eq get_def)
  then obtain ro where ro: "Role_init (JList xs) th (Some ?u) = Inr ro"
    by (cases "Role_init (JList xs) th (Some ?u)") (simp_all add: DelegatedRole_init_def)
  note ro' = Role_init_Inr[OF ro]
  from init ro have both: "\<not> (truthy (get ''paths'' rd) \<and> truthy (get ''path_hash_prefixes'' rd))"
    by (auto simp: DelegatedRole_init_def split: if_splits)
  from init ro both have "r = \<lparr>keyids = set xs, threshold = th, role_unrecognized_fields = ?u,
          name = nm, terminating = tm, paths = get ''paths'' rd,
          path_hash_prefixes = get ''path_hash_prefixes'' rd\<rparr>"
    by (auto simp: DelegatedRole_init_def ro')
  with l1 l2 l3 both show thesis by (rule that)
qed

lemma DelegatedRole_reencodes:
  assumes dec: "DelegatedRole_from_dict rd = Inr (r, rest)"
      and ord: "keyids_in_listing_order list_of (JDict rd)"
      and scp: "present_scoping_not_empty (JDict rd)"
  shows "DelegatedRole_to_dict list_of r = rd"
proof -
  from ord obtain xs where ks: "fmlookup rd ''keyids'' = Some (JList xs)" and lo: "list_of (set xs) = xs"
    by (auto simp: keyids_in_listing_order_def split: option.splits json.splits)
  from dec ks obtain nm th tm where
    l: "fmlookup rd ''name'' = Some nm" "fmlookup rd ''threshold'' = Some th"
       "fmlookup rd ''terminating'' = Some tm"
    and both: "\<not> (truthy (get ''paths'' rd) \<and> truthy (get ''path_hash_prefixes'' rd))"
    and r: "r = \<lparr>keyids = set xs, threshold = th,
          role_unrecognized_fields =
            fmdrop ''path_hash_prefixes'' (fmdrop ''paths'' (fmdrop ''terminating''
              (fmdrop ''threshold'' (fmdrop ''keyids'' (fmdrop ''name'' rd))))),
          name = nm, terminating = tm, paths = get ''paths'' rd,
          path_hash_prefixes = get ''path_hash_prefixes'' rd\<rparr>"
    by (rule DelegatedRole_from_dict_Inr)
  from scp have s1: "\<And>v. fmlookup rd ''paths'' = Some v \<Longrightarrow> truthy v"
    and s2: "\<And>v. fmlookup rd ''path_hash_prefixes'' = Some v \<Longrightarrow> truthy v"
    by (auto simp: present_scoping_not_empty_def)
  show ?thesis
  proof (cases "fmlookup rd ''paths''")
    case None
    note pn = None
    show ?thesis
    proof (cases "fmlookup rd ''path_hash_prefixes''")
      case None
      with pn show ?thesis
        unfolding r DelegatedRole_to_dict_def Role_to_dict_def Let_def
        by (simp add: lo get_def fmdrop_absent restore l ks)
    next
      case (Some w)
      with pn s2 show ?thesis
        unfolding r DelegatedRole_to_dict_def Role_to_dict_def Let_def
        by (simp add: lo get_def fmdrop_absent restore l ks)
    qed
  next
    case (Some v)
    with s1 have tv: "truthy v" by simp
    with both Some have "\<not> truthy (get ''path_hash_prefixes'' rd)" by (simp add: get_def)
    with s2 have pn: "fmlookup rd ''path_hash_prefixes'' = None"
      by (cases "fmlookup rd ''path_hash_prefixes''") (auto simp: get_def)
    from Some tv pn show ?thesis
      unfolding r DelegatedRole_to_dict_def Role_to_dict_def Let_def
      by (simp add: lo get_def fmdrop_absent restore l ks)
  qed
qed

lemma fmmap_traversed_back:
  assumes "fmpred (\<lambda>k v. \<exists>y. f v = Inr y) m" and "\<And>k v y. fmlookup m k = Some v \<Longrightarrow> f v = Inr y \<Longrightarrow> g y = v"
  shows "fmmap g (fmmap (\<lambda>v. projr (f v)) m) = m"
proof (rule fmap_ext)
  fix x
  show "fmlookup (fmmap g (fmmap (\<lambda>v. projr (f v)) m)) x = fmlookup m x"
  proof (cases "fmlookup m x")
    case None
    then show ?thesis by simp
  next
    case (Some v)
    with assms(1) obtain y where y: "f v = Inr y" by (auto dest: fmpredD)
    with assms(2)[OF Some y] Some show ?thesis by simp
  qed
qed

lemma list_traverse_back:
  assumes "list_traverse f xs = Inr ys" and "\<And>x y. x \<in> set xs \<Longrightarrow> f x = Inr y \<Longrightarrow> g y = x"
  shows "map g ys = xs"
  using assms
proof (induction xs arbitrary: ys)
  case Nil
  then show ?case by simp
next
  case (Cons x xs)
  from Cons.prems(1) obtain y where y: "f x = Inr y"
    by (cases "f x") simp_all
  from Cons.prems(1) y obtain ys' where ys': "list_traverse f xs = Inr ys'"
    by (cases "list_traverse f xs") simp_all
  from Cons.prems(1) y ys' have ys: "ys = y # ys'" by simp
  have "map g ys' = xs"
    using ys' Cons.prems(2) by (intro Cons.IH) auto
  moreover have "g y = x" using Cons.prems(2)[of x y] y by simp
  ultimately show ?case by (simp add: ys)
qed

lemma key_record_back:
  assumes "bind_r (as_popable v) (\<lambda>kd. bind_r (Key_from_dict kd) (\<lambda>(k, rest). Inr k)) = Inr k"
  shows "JDict (Key_to_dict k) = v"
proof -
  from assms obtain kd where v: "v = JDict kd"
    by (cases v) simp_all
  from assms v obtain rest where "Key_from_dict kd = Inr (k, rest)"
    by (cases "Key_from_dict kd") auto
  then show ?thesis by (simp add: Key_reencodes v)
qed

lemma key_entry_back:
  assumes "bind_r (as_popable v) (\<lambda>kd. bind_r (Key_from_dict kd) (\<lambda>(k, rest). Inr (KeyObj k))) = Inr e"
  shows "key_entry_to_dict e = Inr v"
proof -
  from assms obtain kd where v: "v = JDict kd"
    by (cases v) simp_all
  from assms v obtain k rest where "Key_from_dict kd = Inr (k, rest)" "e = KeyObj k"
    by (cases "Key_from_dict kd") auto
  then show ?thesis by (simp add: Key_reencodes v key_entry_to_dict_def)
qed

lemma role_record_back:
  assumes "bind_r (as_popable v) (\<lambda>rd. bind_r (Role_from_dict rd) (\<lambda>(r, rest). Inr r)) = Inr r"
      and "keyids_in_listing_order list_of v"
  shows "JDict (Role_to_dict list_of r) = v"
proof -
  from assms obtain rd where v: "v = JDict rd"
    by (cases v) simp_all
  from assms v obtain rest where "Role_from_dict rd = Inr (r, rest)"
    by (cases "Role_from_dict rd") auto
  with assms(2) show ?thesis by (simp add: Role_reencodes v)
qed

lemma delegated_role_record_back:
  assumes "bind_r (as_popable v) (\<lambda>rd. bind_r (DelegatedRole_from_dict rd) (\<lambda>(r, rest). Inr r)) = Inr r"
      and "keyids_in_listing_order list_of v" and "present_scoping_not_empty v"
  shows "JDict (DelegatedRole_to_dict list_of r) = v"
proof -
  from assms obtain rd where v: "v = JDict rd"
    by (cases v) simp_all
  from assms v obtain rest where "DelegatedRole_from_dict rd = Inr (r, rest)"
    by (cases "DelegatedRole_from_dict rd") auto
  with assms(2,3) show ?thesis by (simp add: DelegatedRole_reencodes v)
qed

lemma Delegations_reencodes:
  assumes dec: "Delegations_from_dict dd = Inr (dl, rest)"
      and ok: "delegated_roles_reencodable list_of (JDict dd)"
  shows "Delegations_to_dict list_of dl = dd"
proof -
  let ?fk = "\<lambda>key_dict. bind_r (as_popable key_dict) (\<lambda>kd. bind_r (Key_from_dict kd) (\<lambda>(k, rest). Inr k))"
  let ?fr = "\<lambda>role_dict. bind_r (as_popable role_dict) (\<lambda>rd.
               bind_r (DelegatedRole_from_dict rd) (\<lambda>(r, rest). Inr r))"
  note defs = Delegations_from_dict_def pop_def
  from ok obtain rl where lr: "fmlookup dd ''roles'' = Some (JList rl)"
    and each: "list_all (\<lambda>rd. keyids_in_listing_order list_of rd \<and> present_scoping_not_empty rd) rl"
    by (auto simp: delegated_roles_reencodable_def split: option.splits json.splits)
  from dec obtain ks where lk: "fmlookup dd ''keys'' = Some ks"
    by (cases "fmlookup dd ''keys''") (simp_all add: defs)
  from dec lk obtain ksd where ks: "ks = JDict ksd"
    by (cases ks) (simp_all add: defs)
  from dec lk ks obtain keys_res where tk: "fm_traverse ?fk ksd = Inr keys_res"
    by (cases "fm_traverse ?fk ksd") (simp_all add: defs)
  from dec lk ks tk lr obtain roles_res where tr: "list_traverse ?fr rl = Inr roles_res"
    by (cases "list_traverse ?fr rl") (simp_all add: defs)
  from dec lk ks tk lr tr
  have dl: "dl = \<lparr>deleg_keys = keys_res, deleg_roles = roles_res,
                  deleg_unrecognized_fields = fmdrop ''roles'' (fmdrop ''keys'' dd)\<rparr>"
    by (auto simp: defs or_empty_def)
  from tk have kr: "keys_res = fmmap (\<lambda>v. projr (?fk v)) ksd"
    and kp: "fmpred (\<lambda>k v. \<exists>y. ?fk v = Inr y) ksd"
    by (simp_all add: fm_traverse_Inr_iff)
  have keys_back: "fmmap (\<lambda>key. JDict (Key_to_dict key)) keys_res = ksd"
    unfolding kr by (rule fmmap_traversed_back[OF kp]) (rule key_record_back)
  have roles_back: "map (\<lambda>role_obj. JDict (DelegatedRole_to_dict list_of role_obj)) roles_res = rl"
  proof (rule list_traverse_back[OF tr])
    fix x y assume "x \<in> set rl" and y: "?fr x = Inr y"
    with each have "keyids_in_listing_order list_of x" "present_scoping_not_empty x"
      by (auto simp: list_all_iff)
    with y show "JDict (DelegatedRole_to_dict list_of y) = x"
      by (rule delegated_role_record_back)
  qed
  show ?thesis
    unfolding dl Delegations_to_dict_def using lk lr ks
    by (simp add: keys_back roles_back restore)
qed

lemma common_fields_from_dict_Inr:
  assumes dec: "common_fields_from_dict ty p d = Inr (a, d')"
  obtains v sv es ex where
    "fmlookup d ''_type'' = Some (JStr ty)" "fmlookup d ''version'' = Some v"
    "fmlookup d ''spec_version'' = Some sv" "fmlookup d ''expires'' = Some es"
    "p es = Inr ex" "a = (v, sv, ex)"
    "d' = fmdrop ''expires'' (fmdrop ''spec_version'' (fmdrop ''version'' (fmdrop ''_type'' d)))"
proof -
  note defs = common_fields_from_dict_def pop_def
  from dec obtain t where l0: "fmlookup d ''_type'' = Some t"
    by (cases "fmlookup d ''_type''") (simp_all add: defs)
  from dec l0 have t: "t = JStr ty"
    by (cases "t = JStr ty") (simp_all add: defs)
  from dec l0 t obtain v where l1: "fmlookup d ''version'' = Some v"
    by (cases "fmlookup d ''version''") (simp_all add: defs)
  from dec l0 t l1 obtain sv where l2: "fmlookup d ''spec_version'' = Some sv"
    by (cases "fmlookup d ''spec_version''") (simp_all add: defs)
  from dec l0 t l1 l2 obtain es where l3: "fmlookup d ''expires'' = Some es"
    by (cases "fmlookup d ''expires''") (simp_all add: defs)
  from dec l0 t l1 l2 l3 obtain ex where ex: "p es = Inr ex"
    by (cases "p es") (simp_all add: defs)
  from dec l0 t l1 l2 l3 ex have "a = (v, sv, ex)"
    and "d' = fmdrop ''expires'' (fmdrop ''spec_version'' (fmdrop ''version'' (fmdrop ''_type'' d)))"
    by (auto simp: defs)
  with l0[unfolded t] l1 l2 l3 ex show thesis by (rule that)
qed

lemma Signed_init_Inr:
  assumes "Signed_init v sv ex (Some u) = Inr sg"
  obtains i where "v = JInt i"
    "sg = \<lparr>version = i, spec_version = sv, expires = ex, unrecognized_fields = u\<rparr>"
  using assms by (cases v) (auto simp: Signed_init_def or_empty_def split: if_splits)

text \<open>The common fields are re-emitted as they were read.\<close>

lemma common_fields_back:
  assumes l: "fmlookup d ''_type'' = Some (JStr ty)" "fmlookup d ''version'' = Some (JInt i)"
      "fmlookup d ''spec_version'' = Some sv" "fmlookup d ''expires'' = Some es"
    and ex: "p es = Inr ex" and re: "expires_reemitted p fmt d"
    and s: "version s = i" "spec_version s = sv" "expires s = ex"
  shows "common_fields_to_dict ty fmt s
         = fmupd ''expires'' es (fmupd ''spec_version'' sv (fmupd ''version'' (JInt i)
             (fmupd ''_type'' (JStr ty) fmempty)))
           ++\<^sub>f unrecognized_fields s"
proof -
  from re l(4) ex have "es = JStr (fmt ex @ ''Z'')"
    by (auto simp: expires_reemitted_def split: json.splits sum.splits)
  with s show ?thesis by (simp add: common_fields_to_dict_def)
qed

lemma Timestamp_reencodes:
  assumes dec: "Timestamp_from_dict p x = Inr (t, rest)" and re: "expires_reemitted p fmt x"
  shows "Timestamp_to_dict fmt t = Inr x"
proof -
  from dec obtain a d1 where c: "common_fields_from_dict ''timestamp'' p x = Inr (a, d1)"
    by (cases "common_fields_from_dict ''timestamp'' p x") (auto simp: Timestamp_from_dict_def)
  from c obtain v sv es ex where
    l: "fmlookup x ''_type'' = Some (JStr ''timestamp'')" "fmlookup x ''version'' = Some v"
       "fmlookup x ''spec_version'' = Some sv" "fmlookup x ''expires'' = Some es"
    and ex: "p es = Inr ex" and a: "a = (v, sv, ex)"
    and d1: "d1 = fmdrop ''expires'' (fmdrop ''spec_version'' (fmdrop ''version'' (fmdrop ''_type'' x)))"
    by (rule common_fields_from_dict_Inr)
  from dec c a obtain m where lm: "fmlookup d1 ''meta'' = Some m"
    by (cases "fmlookup d1 ''meta''") (simp_all add: Timestamp_from_dict_def pop_def)
  from dec c a lm obtain sg where sg: "Signed_init v sv ex (Some (fmdrop ''meta'' d1)) = Inr sg"
    by (cases "Signed_init v sv ex (Some (fmdrop ''meta'' d1))") (simp_all add: Timestamp_from_dict_def pop_def)
  from sg obtain i where v: "v = JInt i"
    and sg': "sg = \<lparr>version = i, spec_version = sv, expires = ex, unrecognized_fields = fmdrop ''meta'' d1\<rparr>"
    by (rule Signed_init_Inr)
  from dec c a lm sg have t: "t = \<lparr>version = i, spec_version = sv, expires = ex,
      unrecognized_fields = fmdrop ''meta'' d1, ts_meta = m\<rparr>"
    by (auto simp: Timestamp_from_dict_def pop_def sg')
  from lm have lm': "fmlookup x ''meta'' = Some m" by (simp add: d1)
  have cf: "common_fields_to_dict ''timestamp'' fmt t
         = fmupd ''expires'' es (fmupd ''spec_version'' sv (fmupd ''version'' (JInt i)
             (fmupd ''_type'' (JStr ''timestamp'') fmempty)))
           ++\<^sub>f fmdrop ''meta'' d1"
    using common_fields_back[OF l(1) l(2)[unfolded v] l(3) l(4) ex re, of t] by (simp add: t)
  show ?thesis
    unfolding Timestamp_to_dict_def cf d1 using l lm' v
    by (simp add: restore t)
qed

lemma Snapshot_reencodes:
  assumes dec: "Snapshot_from_dict p x = Inr (t, rest)" and re: "expires_reemitted p fmt x"
  shows "Snapshot_to_dict fmt t = Inr x"
proof -
  from dec obtain a d1 where c: "common_fields_from_dict ''snapshot'' p x = Inr (a, d1)"
    by (cases "common_fields_from_dict ''snapshot'' p x") (auto simp: Snapshot_from_dict_def)
  from c obtain v sv es ex where
    l: "fmlookup x ''_type'' = Some (JStr ''snapshot'')" "fmlookup x ''version'' = Some v"
       "fmlookup x ''spec_version'' = Some sv" "fmlookup x ''expires'' = Some es"
    and ex: "p es = Inr ex" and a: "a = (v, sv, ex)"
    and d1: "d1 = fmdrop ''expires'' (fmdrop ''spec_version'' (fmdrop ''version'' (fmdrop ''_type'' x)))"
    by (rule common_fields_from_dict_Inr)
  from dec c a obtain m where lm: "fmlookup d1 ''meta'' = Some m"
    by (cases "fmlookup d1 ''meta''") (simp_all add: Snapshot_from_dict_def pop_def)
  from dec c a lm obtain sg where sg: "Signed_init v sv ex (Some (fmdrop ''meta'' d1)) = Inr sg"
    by (cases "Signed_init v sv ex (Some (fmdrop ''meta'' d1))") (simp_all add: Snapshot_from_dict_def pop_def)
  from sg obtain i where v: "v = JInt i"
    and sg': "sg = \<lparr>version = i, spec_version = sv, expires = ex, unrecognized_fields = fmdrop ''meta'' d1\<rparr>"
    by (rule Signed_init_Inr)
  from dec c a lm sg have t: "t = \<lparr>version = i, spec_version = sv, expires = ex,
      unrecognized_fields = fmdrop ''meta'' d1, sn_meta = m\<rparr>"
    by (auto simp: Snapshot_from_dict_def pop_def sg')
  from lm have lm': "fmlookup x ''meta'' = Some m" by (simp add: d1)
  have cf: "common_fields_to_dict ''snapshot'' fmt t
         = fmupd ''expires'' es (fmupd ''spec_version'' sv (fmupd ''version'' (JInt i)
             (fmupd ''_type'' (JStr ''snapshot'') fmempty)))
           ++\<^sub>f fmdrop ''meta'' d1"
    using common_fields_back[OF l(1) l(2)[unfolded v] l(3) l(4) ex re, of t] by (simp add: t)
  show ?thesis
    unfolding Snapshot_to_dict_def cf d1 using l lm' v
    by (simp add: restore t)
qed

lemma Root_reencodes:
  assumes dec: "Root_from_dict p x = Inr (r, rest)" and re: "expires_reemitted p fmt x"
      and ord: "root_roles_in_listing_order list_of x"
  shows "Root_to_dict fmt list_of r = Inr x"
proof -
  let ?fk = "\<lambda>key_dict. bind_r (as_popable key_dict) (\<lambda>kd.
               bind_r (Key_from_dict kd) (\<lambda>(k, rest). Inr (KeyObj k)))"
  let ?fr = "\<lambda>role_dict. bind_r (as_popable role_dict) (\<lambda>rd.
               bind_r (Role_from_dict rd) (\<lambda>(r, rest). Inr r))"
  note defs = Root_from_dict_def pop_def
  from dec obtain a d1 where c: "common_fields_from_dict ''root'' p x = Inr (a, d1)"
    by (cases "common_fields_from_dict ''root'' p x") (auto simp: Root_from_dict_def)
  from c obtain v sv es ex where
    l: "fmlookup x ''_type'' = Some (JStr ''root'')" "fmlookup x ''version'' = Some v"
       "fmlookup x ''spec_version'' = Some sv" "fmlookup x ''expires'' = Some es"
    and ex: "p es = Inr ex" and a: "a = (v, sv, ex)"
    and d1: "d1 = fmdrop ''expires'' (fmdrop ''spec_version'' (fmdrop ''version'' (fmdrop ''_type'' x)))"
    by (rule common_fields_from_dict_Inr)
  from ord obtain rsd where lr: "fmlookup x ''roles'' = Some (JDict rsd)"
    and each: "fmpred (\<lambda>role_name rd. keyids_in_listing_order list_of rd) rsd"
    by (auto simp: root_roles_in_listing_order_def split: option.splits json.splits)
  from lr have lr1: "fmlookup d1 ''roles'' = Some (JDict rsd)" by (simp add: d1)
  from dec c a obtain cs where lc: "fmlookup d1 ''consistent_snapshot'' = Some cs"
    by (cases "fmlookup d1 ''consistent_snapshot''") (simp_all add: defs)
  from dec c a lc obtain ks where lk: "fmlookup d1 ''keys'' = Some ks"
    by (cases "fmlookup d1 ''keys''") (simp_all add: defs)
  from dec c a lc lk lr1 obtain ksd where ks: "ks = JDict ksd"
    by (cases ks) (simp_all add: defs)
  from dec c a lc lk lr1 ks obtain keys_res where tk: "fm_traverse ?fk ksd = Inr keys_res"
    by (cases "fm_traverse ?fk ksd") (simp_all add: defs)
  from dec c a lc lk lr1 ks tk obtain roles_res where tr: "fm_traverse ?fr rsd = Inr roles_res"
    by (cases "fm_traverse ?fr rsd") (simp_all add: defs)
  let ?u = "fmdrop ''roles'' (fmdrop ''keys'' (fmdrop ''consistent_snapshot'' d1))"
  from dec c a lc lk lr1 ks tk tr obtain sg where sg: "Signed_init v sv ex (Some ?u) = Inr sg"
    by (cases "Signed_init v sv ex (Some ?u)") (simp_all add: defs)
  from sg obtain i where v: "v = JInt i"
    and sg': "sg = \<lparr>version = i, spec_version = sv, expires = ex, unrecognized_fields = ?u\<rparr>"
    by (rule Signed_init_Inr)
  from dec c a lc lk lr1 ks tk tr sg have r: "r = \<lparr>version = i, spec_version = sv, expires = ex,
      unrecognized_fields = ?u, consistent_snapshot = cs, keys = keys_res, roles = roles_res\<rparr>"
    by (auto simp: defs sg')
  from tk have kr: "keys_res = fmmap (\<lambda>v. projr (?fk v)) ksd"
    and kp: "fmpred (\<lambda>k v. \<exists>y. ?fk v = Inr y) ksd"
    by (simp_all add: fm_traverse_Inr_iff)
  from tr have rr: "roles_res = fmmap (\<lambda>v. projr (?fr v)) rsd"
    and rp: "fmpred (\<lambda>k v. \<exists>y. ?fr v = Inr y) rsd"
    by (simp_all add: fm_traverse_Inr_iff)
  have kp': "fmpred (\<lambda>k e. \<exists>y. key_entry_to_dict e = Inr y) keys_res"
    unfolding fmpred_iff
  proof (intro allI impI)
    fix k e assume "fmlookup keys_res k = Some e"
    then obtain w where w: "fmlookup ksd k = Some w" and e: "e = projr (?fk w)"
      by (auto simp: kr)
    from kp w obtain y where y: "?fk w = Inr y" by (auto dest: fmpredD)
    from key_entry_back[OF y] e y show "\<exists>y. key_entry_to_dict e = Inr y" by simp
  qed
  have "fmmap (\<lambda>e. projr (key_entry_to_dict e)) keys_res = ksd"
  proof (rule fmap_ext)
    fix k
    show "fmlookup (fmmap (\<lambda>e. projr (key_entry_to_dict e)) keys_res) k = fmlookup ksd k"
    proof (cases "fmlookup ksd k")
      case None
      then show ?thesis by (simp add: kr)
    next
      case (Some w)
      with kp obtain y where y: "?fk w = Inr y" by (auto dest: fmpredD)
      from key_entry_back[OF y] Some y show ?thesis by (simp add: kr)
    qed
  qed
  with kp' have keys_back: "fm_traverse key_entry_to_dict keys_res = Inr ksd"
    by (simp add: fm_traverse_Inr_iff)
  have roles_back: "fmmap (\<lambda>role. JDict (Role_to_dict list_of role)) roles_res = rsd"
    unfolding rr
  proof (rule fmmap_traversed_back[OF rp])
    fix k w y assume "fmlookup rsd k = Some w" and y: "?fr w = Inr y"
    with each have "keyids_in_listing_order list_of w" by (auto dest: fmpredD)
    with y show "JDict (Role_to_dict list_of y) = w" by (rule role_record_back)
  qed
  from lc lk have lx: "fmlookup x ''consistent_snapshot'' = Some cs" "fmlookup x ''keys'' = Some (JDict ksd)"
    by (simp_all add: d1 ks)
  have cf: "common_fields_to_dict ''root'' fmt r
         = fmupd ''expires'' es (fmupd ''spec_version'' sv (fmupd ''version'' (JInt i)
             (fmupd ''_type'' (JStr ''root'') fmempty)))
           ++\<^sub>f ?u"
    using common_fields_back[OF l(1) l(2)[unfolded v] l(3) l(4) ex re, of r] by (simp add: r)
  have "fmupd ''roles'' (JDict rsd) (fmupd ''keys'' (JDict ksd) (fmupd ''consistent_snapshot'' cs
          (fmupd ''expires'' es (fmupd ''spec_version'' sv (fmupd ''version'' (JInt i)
             (fmupd ''_type'' (JStr ''root'') fmempty))) ++\<^sub>f ?u))) = x"
    unfolding d1 using l lx lr v by (simp add: restore)
  then show ?thesis
    unfolding Root_to_dict_def Let_def cf by (simp add: r keys_back roles_back)
qed

lemma Targets_reencodes:
  assumes dec: "Targets_from_dict p x = Inr (t, rest)" and re: "expires_reemitted p fmt x"
      and ok: "delegations_reencodable list_of x"
  shows "Targets_to_dict fmt list_of t = Inr x"
proof -
  note defs = Targets_from_dict_def pop_def pop_default_eq
  from dec obtain a d1 where c: "common_fields_from_dict ''targets'' p x = Inr (a, d1)"
    by (cases "common_fields_from_dict ''targets'' p x") (auto simp: Targets_from_dict_def)
  from c obtain v sv es ex where
    l: "fmlookup x ''_type'' = Some (JStr ''targets'')" "fmlookup x ''version'' = Some v"
       "fmlookup x ''spec_version'' = Some sv" "fmlookup x ''expires'' = Some es"
    and ex: "p es = Inr ex" and a: "a = (v, sv, ex)"
    and d1: "d1 = fmdrop ''expires'' (fmdrop ''spec_version'' (fmdrop ''version'' (fmdrop ''_type'' x)))"
    by (rule common_fields_from_dict_Inr)
  from dec c a obtain tg where lt: "fmlookup d1 ''targets'' = Some tg"
    by (cases "fmlookup d1 ''targets''") (simp_all add: defs)
  let ?u = "fmdrop ''delegations'' (fmdrop ''targets'' d1)"
  from lt have lt': "fmlookup x ''targets'' = Some tg" by (simp add: d1)
  show ?thesis
  proof (cases "fmlookup x ''delegations''")
    case None
    then have ld: "fmlookup (fmdrop ''targets'' d1) ''delegations'' = None" by (simp add: d1)
    from dec c a lt ld obtain sg where sg: "Signed_init v sv ex (Some ?u) = Inr sg"
      by (cases "Signed_init v sv ex (Some ?u)") (simp_all add: defs)
    from sg obtain i where v: "v = JInt i"
      and sg': "sg = \<lparr>version = i, spec_version = sv, expires = ex, unrecognized_fields = ?u\<rparr>"
      by (rule Signed_init_Inr)
    from dec c a lt ld sg have t: "t = \<lparr>version = i, spec_version = sv, expires = ex,
        unrecognized_fields = ?u, targets = tg, delegations = DelegationsRaw JNull\<rparr>"
      by (auto simp: defs sg')
    have cf: "common_fields_to_dict ''targets'' fmt t
         = fmupd ''expires'' es (fmupd ''spec_version'' sv (fmupd ''version'' (JInt i)
             (fmupd ''_type'' (JStr ''targets'') fmempty)))
           ++\<^sub>f ?u"
      using common_fields_back[OF l(1) l(2)[unfolded v] l(3) l(4) ex re, of t] by (simp add: t)
    have "fmupd ''targets'' tg
          (fmupd ''expires'' es (fmupd ''spec_version'' sv (fmupd ''version'' (JInt i)
             (fmupd ''_type'' (JStr ''targets'') fmempty))) ++\<^sub>f ?u) = x"
      unfolding d1 using l lt' None v by (simp add: restore fmdrop_absent)
    then show ?thesis
      unfolding Targets_to_dict_def Let_def cf by (simp add: t)
  next
    case (Some dj)
    then have ld: "fmlookup (fmdrop ''targets'' d1) ''delegations'' = Some dj" by (simp add: d1)
    from ok Some have tr: "truthy dj" and dok: "delegated_roles_reencodable list_of dj"
      by (simp_all add: delegations_reencodable_def)
    from dok obtain dd where dj: "dj = JDict dd"
      by (cases dj) (simp_all add: delegated_roles_reencodable_def)
    from dec c a lt ld tr dj obtain dl drest where dl: "Delegations_from_dict dd = Inr (dl, drest)"
      by (cases "Delegations_from_dict dd") (auto simp: defs)
    from dec c a lt ld tr dj dl obtain sg where sg: "Signed_init v sv ex (Some ?u) = Inr sg"
      by (cases "Signed_init v sv ex (Some ?u)") (simp_all add: defs)
    from sg obtain i where v: "v = JInt i"
      and sg': "sg = \<lparr>version = i, spec_version = sv, expires = ex, unrecognized_fields = ?u\<rparr>"
      by (rule Signed_init_Inr)
    from dec c a lt ld tr dj dl sg have t: "t = \<lparr>version = i, spec_version = sv, expires = ex,
        unrecognized_fields = ?u, targets = tg, delegations = DelegationsObj dl\<rparr>"
      by (auto simp: defs sg')
    have dback: "Delegations_to_dict list_of dl = dd"
      using dl dok[unfolded dj] by (rule Delegations_reencodes)
    have cf: "common_fields_to_dict ''targets'' fmt t
         = fmupd ''expires'' es (fmupd ''spec_version'' sv (fmupd ''version'' (JInt i)
             (fmupd ''_type'' (JStr ''targets'') fmempty)))
           ++\<^sub>f ?u"
      using common_fields_back[OF l(1) l(2)[unfolded v] l(3) l(4) ex re, of t] by (simp add: t)
    have "fmupd ''delegations'' (JDict dd) (fmupd ''targets'' tg
          (fmupd ''expires'' es (fmupd ''spec_version'' sv (fmupd ''version'' (JInt i)
             (fmupd ''_type'' (JStr ''targets'') fmempty))) ++\<^sub>f ?u)) = x"
      unfolding d1 using l lt' Some v dj by (simp add: restore)
    then show ?thesis
      unfolding Targets_to_dict_def Let_def cf by (simp add: t dback)
  qed
qed

lemma sample_list_of_singleton: "sample_list_of {JStr s} = [JStr s]"
proof -
  have "JStr -` {JStr s} = {s}" by auto
  then show ?thesis by (simp add: sample_list_of_def)
qed

lemma sample_expires_reemitted:
  "fmlookup d ''expires'' = Some (JStr ''2030-01-01T00:00:00Z'') \<Longrightarrow>
   expires_reemitted sample_expiry_string_to_datetime sample_isoformat d"
  by (simp add: expires_reemitted_def sample_expiry_string_to_datetime_def sample_isoformat_def)

lemma delegated_role_decodes:
  "DelegatedRole_from_dict (delegated_role_dict ps) =
     (if truthy ps \<and> False then Inl ValueError
      else Inr (\<lparr>keyids = {JStr ''k1''}, threshold = JInt 1,
             role_unrecognized_fields = fmupd ''e'' (JStr ''g'') fmempty,
             name = JStr ''role1'', terminating = JBool False,
             paths = ps, path_hash_prefixes = JNull\<rparr>, fmupd ''e'' (JStr ''g'') fmempty))"
  by (simp add: DelegatedRole_from_dict_def delegated_role_dict_def pop_def pop_default_eq fmdrop_fmupd
      DelegatedRole_init_def Role_init_def or_empty_def)

lemma empty_paths_decodes:
  "Targets_from_dict sample_expiry_string_to_datetime empty_paths_targets_dict
     = Inr (empty_paths_targets, fmupd ''f'' (JStr ''b'') fmempty)"
  by (simp add: Targets_from_dict_def common_fields_from_dict_def pop_def pop_default_eq
      empty_paths_targets_dict_def targets_dict_with_paths_def fmdrop_fmupd
      sample_expiry_string_to_datetime_def Signed_init_def or_empty_def
      Delegations_from_dict_def fm_traverse_Inr fmpred_fmupd_iff fmmap_fmupd
      sample_key_decodes delegated_role_decodes empty_paths_targets_def)


text \<open>
  C2. The claim: for every wire record of the four payload types, encoding the decoded
  object gives a dict equal to the record. The targets record whose delegated role has
  \<^verbatim>\<open>"paths": []\<close> decodes; \<^verbatim>\<open>DelegatedRole.to_dict\<close> emits \<^verbatim>\<open>paths\<close> under
  \<^verbatim>\<open>if self.paths\<close> only, so the encoded role has no \<^verbatim>\<open>paths\<close> entry and the result
  differs from the record.
\<close>

theorem roundtrip_drops_empty_paths:
  "Targets_from_dict sample_expiry_string_to_datetime empty_paths_targets_dict
     = Inr (empty_paths_targets, fmupd ''f'' (JStr ''b'') fmempty) \<and>
   Targets_to_dict sample_isoformat sample_list_of empty_paths_targets \<noteq> Inr empty_paths_targets_dict"
proof -
  define q :: "dict \<Rightarrow> json option" where
    "q d = (case fmlookup d ''delegations'' of
              Some (JDict dd) \<Rightarrow>
                (case fmlookup dd ''roles'' of
                   Some (JList [JDict rd]) \<Rightarrow> fmlookup rd ''paths''
                 | other \<Rightarrow> None)
            | other \<Rightarrow> None)" for d
  have before: "q empty_paths_targets_dict = Some (JList [])"
    by (simp add: q_def empty_paths_targets_dict_def targets_dict_with_paths_def delegated_role_dict_def)
  have after: "case_sum (\<lambda>e. None) q (Targets_to_dict sample_isoformat sample_list_of empty_paths_targets) = None"
    by (simp add: q_def Targets_to_dict_def empty_paths_targets_def Delegations_to_dict_def
        DelegatedRole_to_dict_def Role_to_dict_def)
  have "Targets_to_dict sample_isoformat sample_list_of empty_paths_targets \<noteq> Inr empty_paths_targets_dict"
  proof
    assume "Targets_to_dict sample_isoformat sample_list_of empty_paths_targets = Inr empty_paths_targets_dict"
    with after have "q empty_paths_targets_dict = None" by simp
    with before show False by simp
  qed
  with empty_paths_decodes show ?thesis by simp
qed

text \<open>
  C2, amended. For a record of each of the four payload types that decodes, whatever
  further fields it has at any level: encoding the decoded object gives the record
  back, provided that the date collaborators re-emit the \<^verbatim>\<open>expires\<close> string they
  parsed; that in every role record \<^verbatim>\<open>keyids\<close> is a list in the order in which the
  set of key ids lists its members; that in every delegated role record \<^verbatim>\<open>paths\<close> and
  \<^verbatim>\<open>path_hash_prefixes\<close>, where present, are not empty; that the \<^verbatim>\<open>roles\<close> of a
  delegations record are a list; and that \<^verbatim>\<open>delegations\<close>, where present, is not empty.
\<close>

theorem roundtrip_of_reencodable_records:
  "(Root_from_dict p xr = Inr (r, rest_r) \<and> expires_reemitted p fmt xr \<and>
      root_roles_in_listing_order list_of xr
      \<longrightarrow> Root_to_dict fmt list_of r = Inr xr) \<and>
   (Snapshot_from_dict p xs = Inr (sn, rest_s) \<and> expires_reemitted p fmt xs
      \<longrightarrow> Snapshot_to_dict fmt sn = Inr xs) \<and>
   (Timestamp_from_dict p xt = Inr (ts, rest_t) \<and> expires_reemitted p fmt xt
      \<longrightarrow> Timestamp_to_dict fmt ts = Inr xt) \<and>
   (Targets_from_dict p xg = Inr (tg, rest_g) \<and> expires_reemitted p fmt xg \<and>
      delegations_reencodable list_of xg
      \<longrightarrow> Targets_to_dict fmt list_of tg = Inr xg)"
proof (intro conjI impI)
  assume "Root_from_dict p xr = Inr (r, rest_r) \<and> expires_reemitted p fmt xr \<and>
      root_roles_in_listing_order list_of xr"
  then show "Root_to_dict fmt list_of r = Inr xr"
    by (intro Root_reencodes) blast+
next
  assume "Snapshot_from_dict p xs = Inr (sn, rest_s) \<and> expires_reemitted p fmt xs"
  then show "Snapshot_to_dict fmt sn = Inr xs"
    by (intro Snapshot_reencodes) blast+
next
  assume "Timestamp_from_dict p xt = Inr (ts, rest_t) \<and> expires_reemitted p fmt xt"
  then show "Timestamp_to_dict fmt ts = Inr xt"
    by (intro Timestamp_reencodes) blast+
next
  assume "Targets_from_dict p xg = Inr (tg, rest_g) \<and> expires_reemitted p fmt xg \<and>
      delegations_reencodable list_of xg"
  then show "Targets_to_dict fmt list_of tg = Inr xg"
    by (intro Targets_reencodes) blast+
qed

lemma sample_role_dict_decodes:
  "Role_from_dict sample_role_dict =
     Inr (sample_role\<lparr>role_unrecognized_fields := fmupd ''e'' (JStr ''g'') fmempty\<rparr>,
          fmupd ''e'' (JStr ''g'') fmempty)"
  by (simp add: Role_from_dict_def sample_role_dict_def pop_def fmdrop_fmupd Role_init_def or_empty_def
      sample_role_def)

lemma full_root_decodes:
  "\<exists>r rest. Root_from_dict sample_expiry_string_to_datetime full_root_dict = Inr (r, rest)"
  by (simp add: Root_from_dict_def common_fields_from_dict_def pop_def full_root_dict_def
      fmdrop_fmupd sample_expiry_string_to_datetime_def Signed_init_def or_empty_def
      fm_traverse_Inr fmpred_fmupd_iff sample_role_dict_decodes sample_key_decodes)

lemma full_targets_decodes:
  "\<exists>t rest. Targets_from_dict sample_expiry_string_to_datetime full_targets_dict = Inr (t, rest)"
  by (simp add: Targets_from_dict_def common_fields_from_dict_def pop_def pop_default_eq
      full_targets_dict_def targets_dict_with_paths_def fmdrop_fmupd
      sample_expiry_string_to_datetime_def Signed_init_def or_empty_def
      Delegations_from_dict_def fm_traverse_Inr fmpred_fmupd_iff
      sample_key_decodes delegated_role_decodes)

lemma full_snapshot_decodes:
  "\<exists>t rest. Snapshot_from_dict sample_expiry_string_to_datetime full_snapshot_dict = Inr (t, rest)"
  by (simp add: Snapshot_from_dict_def common_fields_from_dict_def pop_def full_snapshot_dict_def
      fmdrop_fmupd sample_expiry_string_to_datetime_def Signed_init_def or_empty_def)

lemma full_timestamp_decodes:
  "\<exists>t rest. Timestamp_from_dict sample_expiry_string_to_datetime full_timestamp_dict = Inr (t, rest)"
  by (simp add: Timestamp_from_dict_def common_fields_from_dict_def pop_def full_timestamp_dict_def
      sample_timestamp_dict_def
      fmdrop_fmupd sample_expiry_string_to_datetime_def Signed_init_def or_empty_def)

text \<open>The sample records of the four types are encoded back as they were.\<close>

theorem roundtrip_of_reencodable_records_witness:
  "bind_r (Root_from_dict sample_expiry_string_to_datetime full_root_dict)
     (\<lambda>(r, rest). Root_to_dict sample_isoformat sample_list_of r) = Inr full_root_dict \<and>
   bind_r (Snapshot_from_dict sample_expiry_string_to_datetime full_snapshot_dict)
     (\<lambda>(sn, rest). Snapshot_to_dict sample_isoformat sn) = Inr full_snapshot_dict \<and>
   bind_r (Timestamp_from_dict sample_expiry_string_to_datetime full_timestamp_dict)
     (\<lambda>(ts, rest). Timestamp_to_dict sample_isoformat ts) = Inr full_timestamp_dict \<and>
   bind_r (Targets_from_dict sample_expiry_string_to_datetime full_targets_dict)
     (\<lambda>(tg, rest). Targets_to_dict sample_isoformat sample_list_of tg) = Inr full_targets_dict"
proof -
  obtain r rest_r where dr: "Root_from_dict sample_expiry_string_to_datetime full_root_dict = Inr (r, rest_r)"
    using full_root_decodes by blast
  obtain sn rest_s where ds: "Snapshot_from_dict sample_expiry_string_to_datetime full_snapshot_dict = Inr (sn, rest_s)"
    using full_snapshot_decodes by blast
  obtain ts rest_t where dt: "Timestamp_from_dict sample_expiry_string_to_datetime full_timestamp_dict = Inr (ts, rest_t)"
    using full_timestamp_decodes by blast
  obtain tg rest_g where dg: "Targets_from_dict sample_expiry_string_to_datetime full_targets_dict = Inr (tg, rest_g)"
    using full_targets_decodes by blast
  have er: "expires_reemitted sample_expiry_string_to_datetime sample_isoformat full_root_dict"
    by (rule sample_expires_reemitted) (simp add: full_root_dict_def)
  have es: "expires_reemitted sample_expiry_string_to_datetime sample_isoformat full_snapshot_dict"
    by (rule sample_expires_reemitted) (simp add: full_snapshot_dict_def)
  have et: "expires_reemitted sample_expiry_string_to_datetime sample_isoformat full_timestamp_dict"
    by (rule sample_expires_reemitted) (simp add: full_timestamp_dict_def sample_timestamp_dict_def)
  have eg: "expires_reemitted sample_expiry_string_to_datetime sample_isoformat full_targets_dict"
    by (rule sample_expires_reemitted) (simp add: full_targets_dict_def targets_dict_with_paths_def)
  have ko: "keyids_in_listing_order sample_list_of (JDict sample_role_dict)"
    by (simp add: keyids_in_listing_order_def sample_role_dict_def sample_list_of_singleton)
  have rr: "root_roles_in_listing_order sample_list_of full_root_dict"
    by (simp add: root_roles_in_listing_order_def full_root_dict_def fmpred_fmupd_iff fmdrop_fmupd ko)
  have dd: "delegations_reencodable sample_list_of full_targets_dict"
    by (simp add: delegations_reencodable_def delegated_roles_reencodable_def full_targets_dict_def
        targets_dict_with_paths_def keyids_in_listing_order_def present_scoping_not_empty_def
        delegated_role_dict_def sample_list_of_singleton)
  note t = roundtrip_of_reencodable_records[where p = sample_expiry_string_to_datetime
      and fmt = sample_isoformat and list_of = sample_list_of
      and xr = full_root_dict and r = r and rest_r = rest_r
      and xs = full_snapshot_dict and sn = sn and rest_s = rest_s
      and xt = full_timestamp_dict and ts = ts and rest_t = rest_t
      and xg = full_targets_dict and tg = tg and rest_g = rest_g]
  from t dr er rr have "Root_to_dict sample_isoformat sample_list_of r = Inr full_root_dict" by blast
  moreover from t ds es have "Snapshot_to_dict sample_isoformat sn = Inr full_snapshot_dict" by blast
  moreover from t dt et have "Timestamp_to_dict sample_isoformat ts = Inr full_timestamp_dict" by blast
  moreover from t dg eg dd have "Targets_to_dict sample_isoformat sample_list_of tg = Inr full_targets_dict" by blast
  ultimately show ?thesis by (simp add: dr ds dt dg)
qed

subsection \<open>What decoding leaves of the record\<close>

lemma Role_from_dict_rest:
  assumes dec: "Role_from_dict rd = Inr (r, rd')"
  shows "rd' = fmdrop ''threshold'' (fmdrop ''keyids'' rd)" and "''keyids'' |\<in>| fmdom rd"
  using assms
  by (auto simp: Role_from_dict_def bind_r_Inr_iff pop_Inr_iff dest: fmdomI)

lemma DelegatedRole_from_dict_rest:
  assumes dec: "DelegatedRole_from_dict rd = Inr (r, rd')"
  shows "rd' = fmdrop ''path_hash_prefixes'' (fmdrop ''paths'' (fmdrop ''terminating''
                 (fmdrop ''threshold'' (fmdrop ''keyids'' (fmdrop ''name'' rd)))))"
    and "''name'' |\<in>| fmdom rd"
proof -
  note defs = DelegatedRole_from_dict_def pop_def
  from dec obtain nm where l1: "fmlookup rd ''name'' = Some nm"
    by (cases "fmlookup rd ''name''") (simp_all add: defs)
  from dec l1 obtain ks where l2: "fmlookup rd ''keyids'' = Some ks"
    by (cases "fmlookup rd ''keyids''") (simp_all add: defs)
  from dec l1 l2 obtain th where l3: "fmlookup rd ''threshold'' = Some th"
    by (cases "fmlookup rd ''threshold''") (simp_all add: defs)
  from dec l1 l2 l3 obtain tm where l4: "fmlookup rd ''terminating'' = Some tm"
    by (cases "fmlookup rd ''terminating''") (simp_all add: defs)
  let ?u = "fmdrop ''path_hash_prefixes'' (fmdrop ''paths'' (fmdrop ''terminating''
              (fmdrop ''threshold'' (fmdrop ''keyids'' (fmdrop ''name'' rd)))))"
  from dec l1 l2 l3 l4
  have "bind_r (DelegatedRole_init nm ks th tm (get ''paths'' rd) (get ''path_hash_prefixes'' rd)
      (Some ?u)) (\<lambda>r. Inr (r, ?u)) = Inr (r, rd')"
    by (simp add: defs pop_default_eq get_def)
  then show "rd' = ?u" by (auto simp: bind_r_Inr_iff)
  from l1 show "''name'' |\<in>| fmdom rd" by (simp add: fmdomI)
qed

lemma Delegations_from_dict_rest:
  assumes dec: "Delegations_from_dict dd = Inr (dl, dd')"
  shows "dd' = fmdrop ''roles'' (fmdrop ''keys'' dd)" and "''keys'' |\<in>| fmdom dd"
  using assms
  by (auto simp: Delegations_from_dict_def bind_r_Inr_iff pop_Inr_iff dest: fmdomI)

lemma common_fields_from_dict_rest_conj:
  assumes "common_fields_from_dict ty p sd = Inr (args, sd')"
  shows "sd' = fmdrop ''expires'' (fmdrop ''spec_version'' (fmdrop ''version'' (fmdrop ''_type'' sd)))
         \<and> ''_type'' |\<in>| fmdom sd"
  using common_fields_from_dict_rest[OF assms] by simp

lemma Timestamp_from_dict_rest:
  assumes dec: "Timestamp_from_dict p x = Inr (t, x')"
  shows "x' = fmdrop ''meta'' (fmdrop ''expires'' (fmdrop ''spec_version''
                (fmdrop ''version'' (fmdrop ''_type'' x))))"
    and "''_type'' |\<in>| fmdom x"
  using assms
  by (auto simp: Timestamp_from_dict_def bind_r_Inr_iff pop_Inr_iff
      dest!: common_fields_from_dict_rest_conj)

lemma Snapshot_from_dict_rest:
  assumes dec: "Snapshot_from_dict p x = Inr (t, x')"
  shows "x' = fmdrop ''meta'' (fmdrop ''expires'' (fmdrop ''spec_version''
                (fmdrop ''version'' (fmdrop ''_type'' x))))"
    and "''_type'' |\<in>| fmdom x"
  using assms
  by (auto simp: Snapshot_from_dict_def bind_r_Inr_iff pop_Inr_iff
      dest!: common_fields_from_dict_rest_conj)

lemma Root_from_dict_rest:
  assumes dec: "Root_from_dict p x = Inr (r, x')"
  shows "x' = fmdrop ''roles'' (fmdrop ''keys'' (fmdrop ''consistent_snapshot''
                (fmdrop ''expires'' (fmdrop ''spec_version''
                  (fmdrop ''version'' (fmdrop ''_type'' x))))))"
    and "''_type'' |\<in>| fmdom x"
  using assms
  by (auto simp: Root_from_dict_def bind_r_Inr_iff pop_Inr_iff
      dest!: common_fields_from_dict_rest_conj)

lemma Targets_from_dict_rest:
  assumes dec: "Targets_from_dict p x = Inr (t, x')"
  shows "x' = fmdrop ''delegations'' (fmdrop ''targets'' (fmdrop ''expires'' (fmdrop ''spec_version''
                (fmdrop ''version'' (fmdrop ''_type'' x)))))"
    and "''_type'' |\<in>| fmdom x"
  using assms
  by (auto simp: Targets_from_dict_def bind_r_Inr_iff pop_Inr_iff pop_default_eq
      dest!: common_fields_from_dict_rest_conj)


lemma Metadata_from_dict_inner:
  assumes dec: "Metadata_from_dict p md = Inr (obj, md')"
  shows "\<exists>sd rest. fmlookup md ''signed'' = Some (JDict sd) \<and>
           ((\<exists>t. signed obj = PTargets t \<and> Targets_from_dict p sd = Inr (t, rest)) \<or>
            (\<exists>sn. signed obj = PSnapshot sn \<and> Snapshot_from_dict p sd = Inr (sn, rest)) \<or>
            (\<exists>t. signed obj = PTimestamp t \<and> Timestamp_from_dict p sd = Inr (t, rest)) \<or>
            (\<exists>r. signed obj = PRoot r \<and> Root_from_dict p sd = Inr (r, rest)))"
proof -
  note defs = Metadata_from_dict_def getitem_def pop_def
  from dec obtain sdv where l1: "fmlookup md ''signed'' = Some sdv"
    by (cases "fmlookup md ''signed''") (simp_all add: defs)
  from dec l1 obtain sd where sdv: "sdv = JDict sd"
    by (cases sdv) (simp_all add: defs)
  from dec l1 sdv obtain ty where l2: "fmlookup sd ''_type'' = Some ty"
    by (cases "fmlookup sd ''_type''") (simp_all add: defs)
  from dec l1 sdv l2 obtain f where f: "inner_from_dict ty p = Some f"
    by (cases "inner_from_dict ty p") (simp_all add: defs)
  from dec l1 sdv l2 f obtain sigs where l3: "fmlookup md ''signatures'' = Some sigs"
    by (cases "fmlookup md ''signatures''") (simp_all add: defs)
  from dec l1 sdv l2 f l3 obtain sigl where l4: "py_iter sigs = Inr sigl"
    by (cases "py_iter sigs") (simp_all add: defs)
  from dec l1 sdv l2 f l3 l4 obtain sigs_res where l5: "list_traverse Signature_from_dict sigl = Inr sigs_res"
    by (cases "list_traverse Signature_from_dict sigl") (simp_all add: defs)
  from dec l1 sdv l2 f l3 l4 l5 obtain inner where inner: "f sd = Inr inner" and obj: "signed obj = inner"
    by (cases "f sd") (auto simp: defs)
  from f inner have
    "(\<exists>t rest. inner = PTargets t \<and> Targets_from_dict p sd = Inr (t, rest)) \<or>
     (\<exists>sn rest. inner = PSnapshot sn \<and> Snapshot_from_dict p sd = Inr (sn, rest)) \<or>
     (\<exists>t rest. inner = PTimestamp t \<and> Timestamp_from_dict p sd = Inr (t, rest)) \<or>
     (\<exists>r rest. inner = PRoot r \<and> Root_from_dict p sd = Inr (r, rest))"
    by (auto simp: inner_from_dict_def bind_r_Inr_iff split: if_splits)
  with l1 sdv obj show ?thesis by auto
qed

text \<open>
  C9. After a successful \<^verbatim>\<open>Metadata.from_dict\<close> the dict passed in is the dict
  without its entries \<^verbatim>\<open>signatures\<close> and \<^verbatim>\<open>signed\<close>, and the dict that was under
  \<^verbatim>\<open>signed\<close> has been decoded by the \<^verbatim>\<open>from_dict\<close> of the payload class. Every nested
  \<^verbatim>\<open>from_dict\<close> leaves the dict it is given without the keys it recognizes:
  \<^verbatim>\<open>Key\<close> without \<^verbatim>\<open>keytype\<close>, \<^verbatim>\<open>scheme\<close>, \<^verbatim>\<open>keyval\<close>; \<^verbatim>\<open>Role\<close> without
  \<^verbatim>\<open>keyids\<close>, \<^verbatim>\<open>threshold\<close>; \<^verbatim>\<open>DelegatedRole\<close> without \<^verbatim>\<open>name\<close>, \<^verbatim>\<open>keyids\<close>,
  \<^verbatim>\<open>threshold\<close>, \<^verbatim>\<open>terminating\<close>, \<^verbatim>\<open>paths\<close>, \<^verbatim>\<open>path_hash_prefixes\<close>;
  \<^verbatim>\<open>Delegations\<close> without \<^verbatim>\<open>keys\<close>, \<^verbatim>\<open>roles\<close>;
  \<^verbatim>\<open>Signed._common_fields_from_dict\<close> without \<^verbatim>\<open>_type\<close>, \<^verbatim>\<open>version\<close>,
  \<^verbatim>\<open>spec_version\<close>, \<^verbatim>\<open>expires\<close>; \<^verbatim>\<open>Root\<close> without those and
  \<^verbatim>\<open>consistent_snapshot\<close>, \<^verbatim>\<open>keys\<close>, \<^verbatim>\<open>roles\<close>; \<^verbatim>\<open>Timestamp\<close> and \<^verbatim>\<open>Snapshot\<close>
  without those and \<^verbatim>\<open>meta\<close>; \<^verbatim>\<open>Targets\<close> without those and \<^verbatim>\<open>targets\<close>,
  \<^verbatim>\<open>delegations\<close>. In each case the dict is no longer what the caller passed.
\<close>

theorem from_dict_consumes_input:
  "(Metadata_from_dict p md = Inr (obj, md') \<longrightarrow>
      md' = fmdrop ''signed'' (fmdrop ''signatures'' md) \<and>
      fmlookup md' ''signatures'' = None \<and> fmlookup md' ''signed'' = None \<and> md' \<noteq> md \<and>
      (\<exists>sd rest. fmlookup md ''signed'' = Some (JDict sd) \<and>
         ((\<exists>t. signed obj = PTargets t \<and> Targets_from_dict p sd = Inr (t, rest)) \<or>
          (\<exists>sn. signed obj = PSnapshot sn \<and> Snapshot_from_dict p sd = Inr (sn, rest)) \<or>
          (\<exists>t. signed obj = PTimestamp t \<and> Timestamp_from_dict p sd = Inr (t, rest)) \<or>
          (\<exists>r. signed obj = PRoot r \<and> Root_from_dict p sd = Inr (r, rest))))) \<and>
   (Key_from_dict kd = Inr (k, kd') \<longrightarrow>
      kd' = fmdrop ''keyval'' (fmdrop ''scheme'' (fmdrop ''keytype'' kd)) \<and> kd' \<noteq> kd) \<and>
   (Role_from_dict rd = Inr (ro, rd') \<longrightarrow>
      rd' = fmdrop ''threshold'' (fmdrop ''keyids'' rd) \<and> rd' \<noteq> rd) \<and>
   (DelegatedRole_from_dict dr = Inr (dro, dr') \<longrightarrow>
      dr' = fmdrop ''path_hash_prefixes'' (fmdrop ''paths'' (fmdrop ''terminating''
              (fmdrop ''threshold'' (fmdrop ''keyids'' (fmdrop ''name'' dr))))) \<and> dr' \<noteq> dr) \<and>
   (Delegations_from_dict dd = Inr (dl, dd') \<longrightarrow>
      dd' = fmdrop ''roles'' (fmdrop ''keys'' dd) \<and> dd' \<noteq> dd) \<and>
   (common_fields_from_dict ty p sd = Inr (args, sd') \<longrightarrow>
      sd' = fmdrop ''expires'' (fmdrop ''spec_version'' (fmdrop ''version'' (fmdrop ''_type'' sd))) \<and>
      sd' \<noteq> sd) \<and>
   (Root_from_dict p xr = Inr (r, xr') \<longrightarrow>
      xr' = fmdrop ''roles'' (fmdrop ''keys'' (fmdrop ''consistent_snapshot''
              (fmdrop ''expires'' (fmdrop ''spec_version''
                (fmdrop ''version'' (fmdrop ''_type'' xr)))))) \<and> xr' \<noteq> xr) \<and>
   (Timestamp_from_dict p xt = Inr (ts, xt') \<longrightarrow>
      xt' = fmdrop ''meta'' (fmdrop ''expires'' (fmdrop ''spec_version''
              (fmdrop ''version'' (fmdrop ''_type'' xt)))) \<and> xt' \<noteq> xt) \<and>
   (Snapshot_from_dict p xs = Inr (sn, xs') \<longrightarrow>
      xs' = fmdrop ''meta'' (fmdrop ''expires'' (fmdrop ''spec_version''
              (fmdrop ''version'' (fmdrop ''_type'' xs)))) \<and> xs' \<noteq> xs) \<and>
   (Targets_from_dict p xg = Inr (tg, xg') \<longrightarrow>
      xg' = fmdrop ''delegations'' (fmdrop ''targets'' (fmdrop ''expires'' (fmdrop ''spec_version''
              (fmdrop ''version'' (fmdrop ''_type'' xg))))) \<and> xg' \<noteq> xg)"
proof -
  have changed: "d' \<noteq> d" if "k |\<in>| fmdom d" and "fmlookup d' k = None"
    for k and d d' :: dict
    using that by (auto simp: fmlookup_dom_iff)
  have c0: "Metadata_from_dict p md = Inr (obj, md') \<longrightarrow>
      md' = fmdrop ''signed'' (fmdrop ''signatures'' md) \<and>
      fmlookup md' ''signatures'' = None \<and> fmlookup md' ''signed'' = None \<and> md' \<noteq> md \<and>
      (\<exists>sd rest. fmlookup md ''signed'' = Some (JDict sd) \<and>
         ((\<exists>t. signed obj = PTargets t \<and> Targets_from_dict p sd = Inr (t, rest)) \<or>
          (\<exists>sn. signed obj = PSnapshot sn \<and> Snapshot_from_dict p sd = Inr (sn, rest)) \<or>
          (\<exists>t. signed obj = PTimestamp t \<and> Timestamp_from_dict p sd = Inr (t, rest)) \<or>
          (\<exists>r. signed obj = PRoot r \<and> Root_from_dict p sd = Inr (r, rest))))"
  proof
    assume a: "Metadata_from_dict p md = Inr (obj, md')"
    note r = Metadata_from_dict_rest[OF a]
    have "md' \<noteq> md" by (rule changed[OF r(3)]) (simp add: r(1))
    with r(1) Metadata_from_dict_inner[OF a] show "md' = fmdrop ''signed'' (fmdrop ''signatures'' md) \<and>
      fmlookup md' ''signatures'' = None \<and> fmlookup md' ''signed'' = None \<and> md' \<noteq> md \<and>
      (\<exists>sd rest. fmlookup md ''signed'' = Some (JDict sd) \<and>
         ((\<exists>t. signed obj = PTargets t \<and> Targets_from_dict p sd = Inr (t, rest)) \<or>
          (\<exists>sn. signed obj = PSnapshot sn \<and> Snapshot_from_dict p sd = Inr (sn, rest)) \<or>
          (\<exists>t. signed obj = PTimestamp t \<and> Timestamp_from_dict p sd = Inr (t, rest)) \<or>
          (\<exists>r. signed obj = PRoot r \<and> Root_from_dict p sd = Inr (r, rest))))"
      by simp
  qed
  have c1: "Key_from_dict kd = Inr (k, kd') \<longrightarrow>
      kd' = fmdrop ''keyval'' (fmdrop ''scheme'' (fmdrop ''keytype'' kd)) \<and> kd' \<noteq> kd"
  proof
    assume a: "Key_from_dict kd = Inr (k, kd')"
    note r = Key_from_dict_rest[OF a]
    have "kd' \<noteq> kd" by (rule changed[OF r(2)]) (simp add: r(1))
    with r(1) show "kd' = fmdrop ''keyval'' (fmdrop ''scheme'' (fmdrop ''keytype'' kd)) \<and> kd' \<noteq> kd"
      by simp
  qed
  have c2: "Role_from_dict rd = Inr (ro, rd') \<longrightarrow>
      rd' = fmdrop ''threshold'' (fmdrop ''keyids'' rd) \<and> rd' \<noteq> rd"
  proof
    assume a: "Role_from_dict rd = Inr (ro, rd')"
    note r = Role_from_dict_rest[OF a]
    have "rd' \<noteq> rd" by (rule changed[OF r(2)]) (simp add: r(1))
    with r(1) show "rd' = fmdrop ''threshold'' (fmdrop ''keyids'' rd) \<and> rd' \<noteq> rd" by simp
  qed
  have c3: "DelegatedRole_from_dict dr = Inr (dro, dr') \<longrightarrow>
      dr' = fmdrop ''path_hash_prefixes'' (fmdrop ''paths'' (fmdrop ''terminating''
              (fmdrop ''threshold'' (fmdrop ''keyids'' (fmdrop ''name'' dr))))) \<and> dr' \<noteq> dr"
  proof
    assume a: "DelegatedRole_from_dict dr = Inr (dro, dr')"
    note r = DelegatedRole_from_dict_rest[OF a]
    have "dr' \<noteq> dr" by (rule changed[OF r(2)]) (simp add: r(1))
    with r(1) show "dr' = fmdrop ''path_hash_prefixes'' (fmdrop ''paths'' (fmdrop ''terminating''
              (fmdrop ''threshold'' (fmdrop ''keyids'' (fmdrop ''name'' dr))))) \<and> dr' \<noteq> dr"
      by simp
  qed
  have c4: "Delegations_from_dict dd = Inr (dl, dd') \<longrightarrow>
      dd' = fmdrop ''roles'' (fmdrop ''keys'' dd) \<and> dd' \<noteq> dd"
  proof
    assume a: "Delegations_from_dict dd = Inr (dl, dd')"
    note r = Delegations_from_dict_rest[OF a]
    have "dd' \<noteq> dd" by (rule changed[OF r(2)]) (simp add: r(1))
    with r(1) show "dd' = fmdrop ''roles'' (fmdrop ''keys'' dd) \<and> dd' \<noteq> dd" by simp
  qed
  have c5: "common_fields_from_dict ty p sd = Inr (args, sd') \<longrightarrow>
      sd' = fmdrop ''expires'' (fmdrop ''spec_version'' (fmdrop ''version'' (fmdrop ''_type'' sd))) \<and>
      sd' \<noteq> sd"
  proof
    assume a: "common_fields_from_dict ty p sd = Inr (args, sd')"
    note r = common_fields_from_dict_rest[OF a]
    have "sd' \<noteq> sd" by (rule changed[OF r(2)]) (simp add: r(1))
    with r(1) show "sd' = fmdrop ''expires'' (fmdrop ''spec_version'' (fmdrop ''version''
        (fmdrop ''_type'' sd))) \<and> sd' \<noteq> sd" by simp
  qed
  have c6: "Root_from_dict p xr = Inr (r, xr') \<longrightarrow>
      xr' = fmdrop ''roles'' (fmdrop ''keys'' (fmdrop ''consistent_snapshot''
              (fmdrop ''expires'' (fmdrop ''spec_version''
                (fmdrop ''version'' (fmdrop ''_type'' xr)))))) \<and> xr' \<noteq> xr"
  proof
    assume a: "Root_from_dict p xr = Inr (r, xr')"
    note r = Root_from_dict_rest[OF a]
    have "xr' \<noteq> xr" by (rule changed[OF r(2)]) (simp add: r(1))
    with r(1) show "xr' = fmdrop ''roles'' (fmdrop ''keys'' (fmdrop ''consistent_snapshot''
              (fmdrop ''expires'' (fmdrop ''spec_version''
                (fmdrop ''version'' (fmdrop ''_type'' xr)))))) \<and> xr' \<noteq> xr" by simp
  qed
  have c7: "Timestamp_from_dict p xt = Inr (ts, xt') \<longrightarrow>
      xt' = fmdrop ''meta'' (fmdrop ''expires'' (fmdrop ''spec_version''
              (fmdrop ''version'' (fmdrop ''_type'' xt)))) \<and> xt' \<noteq> xt"
  proof
    assume a: "Timestamp_from_dict p xt = Inr (ts, xt')"
    note r = Timestamp_from_dict_rest[OF a]
    have "xt' \<noteq> xt" by (rule changed[OF r(2)]) (simp add: r(1))
    with r(1) show "xt' = fmdrop ''meta'' (fmdrop ''expires'' (fmdrop ''spec_version''
              (fmdrop ''version'' (fmdrop ''_type'' xt)))) \<and> xt' \<noteq> xt" by simp
  qed
  have c8: "Snapshot_from_dict p xs = Inr (sn, xs') \<longrightarrow>
      xs' = fmdrop ''meta'' (fmdrop ''expires'' (fmdrop ''spec_version''
              (fmdrop ''version'' (fmdrop ''_type'' xs)))) \<and> xs' \<noteq> xs"
  proof
    assume a: "Snapshot_from_dict p xs = Inr (sn, xs')"
    note r = Snapshot_from_dict_rest[OF a]
    have "xs' \<noteq> xs" by (rule changed[OF r(2)]) (simp add: r(1))
    with r(1) show "xs' = fmdrop ''meta'' (fmdrop ''expires'' (fmdrop ''spec_version''
              (fmdrop ''version'' (fmdrop ''_type'' xs)))) \<and> xs' \<noteq> xs" by simp
  qed
  have c9: "Targets_from_dict p xg = Inr (tg, xg') \<longrightarrow>
      xg' = fmdrop ''delegations'' (fmdrop ''targets'' (fmdrop ''expires'' (fmdrop ''spec_version''
              (fmdrop ''version'' (fmdrop ''_type'' xg))))) \<and> xg' \<noteq> xg"
  proof
    assume a: "Targets_from_dict p xg = Inr (tg, xg')"
    note r = Targets_from_dict_rest[OF a]
    have "xg' \<noteq> xg" by (rule changed[OF r(2)]) (simp add: r(1))
    with r(1) show "xg' = fmdrop ''delegations'' (fmdrop ''targets'' (fmdrop ''expires''
        (fmdrop ''spec_version'' (fmdrop ''version'' (fmdrop ''_type'' xg))))) \<and> xg' \<noteq> xg" by simp
  qed
  from c0 c1 c2 c3 c4 c5 c6 c7 c8 c9 show ?thesis by blast
qed


lemma sample_delegated_role_decodes:
  "\<exists>r. DelegatedRole_from_dict (delegated_role_dict (JList [JStr ''file*.txt''])) =
     Inr (r, fmupd ''e'' (JStr ''g'') fmempty)"
  by (simp add: delegated_role_decodes)

lemma sample_delegations_decodes:
  "\<exists>dl rest. Delegations_from_dict sample_delegations_dict = Inr (dl, rest)"
  by (simp add: Delegations_from_dict_def sample_delegations_dict_def pop_def fmdrop_fmupd
      fm_traverse_Inr fmpred_fmupd_iff sample_key_decodes delegated_role_decodes)

theorem from_dict_consumes_input_witness:
  "map_sum id snd (Metadata_from_dict sample_expiry_string_to_datetime sample_metadata_dict)
     = Inr fmempty \<and>
   map_sum id snd (Key_from_dict sample_key_dict) = Inr (fmupd ''d'' (JStr ''c'') fmempty) \<and>
   map_sum id snd (Role_from_dict sample_role_dict) = Inr (fmupd ''e'' (JStr ''g'') fmempty) \<and>
   map_sum id snd (DelegatedRole_from_dict (delegated_role_dict (JList [JStr ''file*.txt''])))
     = Inr (fmupd ''e'' (JStr ''g'') fmempty) \<and>
   map_sum id snd (Delegations_from_dict sample_delegations_dict)
     = Inr (fmupd ''foo'' (JStr ''bar'') fmempty) \<and>
   map_sum id snd (common_fields_from_dict ''timestamp'' sample_expiry_string_to_datetime
       sample_timestamp_dict)
     = Inr (fmupd ''meta'' (JDict (fmupd ''snapshot.json'' (JDict (fmupd ''version'' (JInt 1) fmempty))
              fmempty)) fmempty) \<and>
   map_sum id snd (Root_from_dict sample_expiry_string_to_datetime full_root_dict)
     = Inr (fmupd ''f'' (JStr ''b'') fmempty) \<and>
   map_sum id snd (Timestamp_from_dict sample_expiry_string_to_datetime full_timestamp_dict)
     = Inr (fmupd ''f'' (JStr ''b'') fmempty) \<and>
   map_sum id snd (Snapshot_from_dict sample_expiry_string_to_datetime full_snapshot_dict)
     = Inr (fmupd ''f'' (JStr ''b'') fmempty) \<and>
   map_sum id snd (Targets_from_dict sample_expiry_string_to_datetime full_targets_dict)
     = Inr (fmupd ''f'' (JStr ''b'') fmempty)"
proof -
  let ?p = sample_expiry_string_to_datetime
  obtain obj md' where d0: "Metadata_from_dict ?p sample_metadata_dict = Inr (obj, md')"
    using sample_metadata_decodes by blast
  obtain k kd' where d1: "Key_from_dict sample_key_dict = Inr (k, kd')"
    using sample_key_decodes by blast
  obtain ro rd' where d2: "Role_from_dict sample_role_dict = Inr (ro, rd')"
    using sample_role_dict_decodes by blast
  obtain dro dr' where d3: "DelegatedRole_from_dict (delegated_role_dict (JList [JStr ''file*.txt''])) = Inr (dro, dr')"
    using sample_delegated_role_decodes by blast
  obtain dl dd' where d4: "Delegations_from_dict sample_delegations_dict = Inr (dl, dd')"
    using sample_delegations_decodes by blast
  obtain args sd' where d5: "common_fields_from_dict ''timestamp'' ?p sample_timestamp_dict = Inr (args, sd')"
    using sample_common_fields by blast
  obtain r xr' where d6: "Root_from_dict ?p full_root_dict = Inr (r, xr')"
    using full_root_decodes by blast
  obtain ts xt' where d7: "Timestamp_from_dict ?p full_timestamp_dict = Inr (ts, xt')"
    using full_timestamp_decodes by blast
  obtain sn xs' where d8: "Snapshot_from_dict ?p full_snapshot_dict = Inr (sn, xs')"
    using full_snapshot_decodes by blast
  obtain tg xg' where d9: "Targets_from_dict ?p full_targets_dict = Inr (tg, xg')"
    using full_targets_decodes by blast
  note t = from_dict_consumes_input[where p = ?p
      and md = sample_metadata_dict and obj = obj and md' = md'
      and kd = sample_key_dict and k = k and kd' = kd'
      and rd = sample_role_dict and ro = ro and rd' = rd'
      and dr = "delegated_role_dict (JList [JStr ''file*.txt''])" and dro = dro and dr' = dr'
      and dd = sample_delegations_dict and dl = dl and dd' = dd'
      and ty = "''timestamp''" and sd = sample_timestamp_dict and args = args and sd' = sd'
      and xr = full_root_dict and r = r and xr' = xr'
      and xt = full_timestamp_dict and ts = ts and xt' = xt'
      and xs = full_snapshot_dict and sn = sn and xs' = xs'
      and xg = full_targets_dict and tg = tg and xg' = xg']
  from t d0 have r0: "md' = fmdrop ''signed'' (fmdrop ''signatures'' sample_metadata_dict)" by blast
  from t d1 have r1: "kd' = fmdrop ''keyval'' (fmdrop ''scheme'' (fmdrop ''keytype'' sample_key_dict))"
    by blast
  from t d2 have r2: "rd' = fmdrop ''threshold'' (fmdrop ''keyids'' sample_role_dict)" by blast
  from t d3 have r3: "dr' = fmdrop ''path_hash_prefixes'' (fmdrop ''paths'' (fmdrop ''terminating''
              (fmdrop ''threshold'' (fmdrop ''keyids'' (fmdrop ''name''
                 (delegated_role_dict (JList [JStr ''file*.txt''])))))))" by blast
  from t d4 have r4: "dd' = fmdrop ''roles'' (fmdrop ''keys'' sample_delegations_dict)" by blast
  from t d5 have r5: "sd' = fmdrop ''expires'' (fmdrop ''spec_version'' (fmdrop ''version''
              (fmdrop ''_type'' sample_timestamp_dict)))" by blast
  from t d6 have r6: "xr' = fmdrop ''roles'' (fmdrop ''keys'' (fmdrop ''consistent_snapshot''
              (fmdrop ''expires'' (fmdrop ''spec_version''
                (fmdrop ''version'' (fmdrop ''_type'' full_root_dict))))))" by blast
  from t d7 have r7: "xt' = fmdrop ''meta'' (fmdrop ''expires'' (fmdrop ''spec_version''
              (fmdrop ''version'' (fmdrop ''_type'' full_timestamp_dict))))" by blast
  from t d8 have r8: "xs' = fmdrop ''meta'' (fmdrop ''expires'' (fmdrop ''spec_version''
              (fmdrop ''version'' (fmdrop ''_type'' full_snapshot_dict))))" by blast
  from t d9 have r9: "xg' = fmdrop ''delegations'' (fmdrop ''targets'' (fmdrop ''expires''
              (fmdrop ''spec_version'' (fmdrop ''version'' (fmdrop ''_type'' full_targets_dict)))))"
    by blast
  have e0: "md' = fmempty"
    unfolding r0 by (simp add: sample_metadata_dict_def fmdrop_fmupd)
  have e1: "kd' = fmupd ''d'' (JStr ''c'') fmempty"
    unfolding r1 by (simp add: sample_key_dict_def fmdrop_fmupd)
  have e2: "rd' = fmupd ''e'' (JStr ''g'') fmempty"
    unfolding r2 by (simp add: sample_role_dict_def fmdrop_fmupd)
  have e3: "dr' = fmupd ''e'' (JStr ''g'') fmempty"
    unfolding r3 by (simp add: delegated_role_dict_def fmdrop_fmupd)
  have e4: "dd' = fmupd ''foo'' (JStr ''bar'') fmempty"
    unfolding r4 by (simp add: sample_delegations_dict_def fmdrop_fmupd)
  have e5: "sd' = fmupd ''meta'' (JDict (fmupd ''snapshot.json'' (JDict (fmupd ''version'' (JInt 1) fmempty))
              fmempty)) fmempty"
    unfolding r5 by (simp add: sample_timestamp_dict_def fmdrop_fmupd)
  have e6: "xr' = fmupd ''f'' (JStr ''b'') fmempty"
    unfolding r6 by (simp add: full_root_dict_def fmdrop_fmupd)
  have e7: "xt' = fmupd ''f'' (JStr ''b'') fmempty"
    unfolding r7 by (simp add: full_timestamp_dict_def sample_timestamp_dict_def fmdrop_fmupd)
  have e8: "xs' = fmupd ''f'' (JStr ''b'') fmempty"
    unfolding r8 by (simp add: full_snapshot_dict_def fmdrop_fmupd)
  have e9: "xg' = fmupd ''f'' (JStr ''b'') fmempty"
    unfolding r9 by (simp add: full_targets_dict_def targets_dict_with_paths_def fmdrop_fmupd)
  show ?thesis
    by (simp add: d0 d1 d2 d3 d4 d5 d6 d7 d8 d9 e0 e1 e2 e3 e4 e5 e6 e7 e8 e9)
qed

end
